theory Spec2Isabelle
  imports Complex_Main
begin

section \<open>Pose scoring and challenge session of PoseChallenge.js\<close>

text \<open>
  A JavaScript number is an IEEE 754 binary64 value. The geometry of the source (the
  angle, the gate, the deviations and the sub-scores) is read in exact arithmetic over the
  real numbers, with \<open>Math.sqrt\<close>, \<open>Math.acos\<close> and \<open>Math.PI\<close> as \<open>sqrt\<close>, \<open>arccos\<close> and
  \<open>pi\<close>. Where the source adds scores up, divides by their number and rounds to one decimal,
  the rounding of binary64 is written out (\<open>fl64\<close>), and the sub-score formula is read a
  second time with that rounding (\<open>subScore64\<close>). A value the source may find absent
  (\<open>null\<close>, \<open>undefined\<close>, an index past the end of an array) is an \<open>option\<close>; a \<open>TypeError\<close>
  of the source is the left injection of a sum type.
\<close>

subsection \<open>Data\<close>

text \<open>A landmark of the detector: \<open>{x, y, z, visibility}\<close>; the source never reads \<open>z\<close>.\<close>

record point =
  pt_x :: real
  pt_y :: real
  visibility :: real

text \<open>
  \<open>results.poseLandmarks\<close>: an array of landmarks. An entry may be missing, and the array
  itself may be \<open>null\<close> where the source tests for it.
\<close>

type_synonym landmarks = "point option list"

text \<open>\<open>landmarks[index]\<close>: reading past the end of a JavaScript array gives \<open>undefined\<close>.\<close>

definition entry :: "landmarks \<Rightarrow> nat \<Rightarrow> point option" where
  "entry landmarks index = (if index < length landmarks then landmarks ! index else None)"

text \<open>
  The tables \<open>LANDMARKS\<close>, \<open>TARGET_ANGLES\<close> and \<open>TOLERANCE\<close> are imported by the source
  from \<open>../data/challenges\<close>; they are parameters of the model, with the keys the source reads.
\<close>

record landmark_indices =
  LEFT_SHOULDER :: nat
  LEFT_ELBOW :: nat
  LEFT_WRIST :: nat
  LEFT_HIP :: nat
  RIGHT_SHOULDER :: nat
  RIGHT_ELBOW :: nat
  RIGHT_WRIST :: nat
  RIGHT_HIP :: nat
  RIGHT_KNEE :: nat
  RIGHT_ANKLE :: nat

record target_angles =
  target_ELBOW :: real
  target_SHOULDER :: real
  target_KNEE_STRAIGHT :: real

record tolerances =
  tol_ELBOW :: real
  tol_SHOULDER :: real
  tol_KNEE :: real
  tol_TILT :: real
  START_TOLERANCE :: real

record config =
  LANDMARK_INDICES :: landmark_indices
  TARGET_ANGLES :: target_angles
  TOLERANCE :: tolerances

datatype error = TypeError

subsection \<open>calculateAngle\<close>

definition calculateAngle :: "point \<Rightarrow> point \<Rightarrow> point \<Rightarrow> real" where
  "calculateAngle A M B =
     (let vectorMA_x = pt_x A - pt_x M;
          vectorMA_y = pt_y A - pt_y M;
          vectorMB_x = pt_x B - pt_x M;
          vectorMB_y = pt_y B - pt_y M;
          dotProduct = (vectorMA_x * vectorMB_x) + (vectorMA_y * vectorMB_y);
          magnitudeMA = sqrt (vectorMA_x ^ 2 + vectorMA_y ^ 2);
          magnitudeMB = sqrt (vectorMB_x ^ 2 + vectorMB_y ^ 2)
      in if magnitudeMA \<noteq> 0 \<and> magnitudeMB \<noteq> 0
         then (let cosTheta = dotProduct / (magnitudeMA * magnitudeMB);
                   cosTheta = max (- 1) (min 1 cosTheta);
                   angleRad = arccos cosTheta
               in angleRad * (180 / pi))
         else 0)"

subsection \<open>isStartPoseAchieved\<close>

text \<open>
  The loop over \<open>requiredLandmarks\<close>: \<open>!landmarks[index] || landmarks[index].visibility < 0.7\<close>
  for one index.
\<close>

definition notVisible :: "landmarks \<Rightarrow> nat \<Rightarrow> bool" where
  "notVisible landmarks index =
     (case entry landmarks index of None \<Rightarrow> True | Some p \<Rightarrow> visibility p < 0.7)"

definition requiredLandmarks :: "landmark_indices \<Rightarrow> nat list" where
  "requiredLandmarks L =
     [LEFT_SHOULDER L, LEFT_ELBOW L, LEFT_WRIST L, LEFT_HIP L,
      RIGHT_SHOULDER L, RIGHT_ELBOW L, RIGHT_WRIST L, RIGHT_HIP L]"

text \<open>
  After the loop every required entry is present, so the reads \<open>landmarks[L.LEFT_SHOULDER]\<close>
  and the like cannot fail; \<open>the\<close> is only applied where the loop has found \<open>Some\<close>.
\<close>

definition isStartPoseAchieved :: "config \<Rightarrow> landmarks option \<Rightarrow> bool" where
  "isStartPoseAchieved cfg landmarks_opt =
     (let L = LANDMARK_INDICES cfg;
          target = TARGET_ANGLES cfg;
          tolerance = START_TOLERANCE (TOLERANCE cfg)
      in case landmarks_opt of
           None \<Rightarrow> False
         | Some landmarks \<Rightarrow>
             if list_ex (notVisible landmarks) (requiredLandmarks L) then False
             else
               (let lm = (\<lambda>i. the (entry landmarks i));
                    leftElbowAngle =
                      calculateAngle (lm (LEFT_SHOULDER L)) (lm (LEFT_ELBOW L)) (lm (LEFT_WRIST L));
                    leftShoulderAngle =
                      calculateAngle (lm (LEFT_HIP L)) (lm (LEFT_SHOULDER L)) (lm (LEFT_ELBOW L));
                    isLeftArmReady =
                      (\<bar>leftElbowAngle - target_ELBOW target\<bar> \<le> tolerance \<and>
                       \<bar>leftShoulderAngle - target_SHOULDER target\<bar> \<le> tolerance);
                    rightElbowAngle =
                      calculateAngle (lm (RIGHT_SHOULDER L)) (lm (RIGHT_ELBOW L)) (lm (RIGHT_WRIST L));
                    rightShoulderAngle =
                      calculateAngle (lm (RIGHT_HIP L)) (lm (RIGHT_SHOULDER L)) (lm (RIGHT_ELBOW L));
                    isRightArmReady =
                      (\<bar>rightElbowAngle - target_ELBOW target\<bar> \<le> tolerance \<and>
                       \<bar>rightShoulderAngle - target_SHOULDER target\<bar> \<le> tolerance)
                in isLeftArmReady \<and> isRightArmReady))"

subsection \<open>Challenges\<close>

text \<open>
  An element of \<open>CHALLENGES\<close>. \<open>targetType\<close> is a string, compared with \<open>'ARM'\<close> and
  \<open>'LEG_BALANCE'\<close>; \<open>evalJoints\<close> is an array of joint names that a configuration may omit.
\<close>

record challenge =
  name :: string
  targetType :: string
  evalJoints :: "string list option"
  message :: string
  score :: real

datatype side = LEFT | RIGHT

text \<open>The reads \<open>L[`${side}_SHOULDER`]\<close>, \<open>L[`${side}_ELBOW`]\<close>, \<open>L[`${side}_WRIST`]\<close>, \<open>L[`${side}_HIP`]\<close>.\<close>

definition sideSHOULDER :: "landmark_indices \<Rightarrow> side \<Rightarrow> nat" where
  "sideSHOULDER L s = (case s of LEFT \<Rightarrow> LEFT_SHOULDER L | RIGHT \<Rightarrow> RIGHT_SHOULDER L)"

definition sideELBOW :: "landmark_indices \<Rightarrow> side \<Rightarrow> nat" where
  "sideELBOW L s = (case s of LEFT \<Rightarrow> LEFT_ELBOW L | RIGHT \<Rightarrow> RIGHT_ELBOW L)"

definition sideWRIST :: "landmark_indices \<Rightarrow> side \<Rightarrow> nat" where
  "sideWRIST L s = (case s of LEFT \<Rightarrow> LEFT_WRIST L | RIGHT \<Rightarrow> RIGHT_WRIST L)"

definition sideHIP :: "landmark_indices \<Rightarrow> side \<Rightarrow> nat" where
  "sideHIP L s = (case s of LEFT \<Rightarrow> LEFT_HIP L | RIGHT \<Rightarrow> RIGHT_HIP L)"

text \<open>
  \<open>challenge.evalJoints[0].includes('L') ? 'LEFT' : 'RIGHT'\<close>. Reading \<open>[0]\<close> of a missing
  \<open>evalJoints\<close>, or \<open>.includes\<close> of the \<open>undefined\<close> first element of an empty one, is a
  \<open>TypeError\<close>.
\<close>

definition sideOf :: "challenge \<Rightarrow> error + side" where
  "sideOf challenge =
     (case evalJoints challenge of
        None \<Rightarrow> Inl TypeError
      | Some [] \<Rightarrow> Inl TypeError
      | Some (j # _) \<Rightarrow> Inr (if CHR ''L'' \<in> set j then LEFT else RIGHT))"

subsection \<open>Binary64 numbers\<close>

text \<open>
  \<open>fl64 x\<close> is the binary64 value nearest to the real number \<open>x\<close>, a tie going to the even
  significand: the result of a JavaScript operation whose exact result is \<open>x\<close>. The
  significand has 53 bits; below the normal range (exponent \<open>- 1022\<close>) the values keep the
  spacing of the smallest normal ones. Results beyond the largest binary64 value
  (\<open>Infinity\<close>) and \<open>NaN\<close> are not modelled.
\<close>

definition roundEven :: "real \<Rightarrow> int" where
  "roundEven y =
     (let f = \<lfloor>y\<rfloor>; r = y - of_int f
      in if r < 1 / 2 then f
         else if 1 / 2 < r then f + 1
         else if even f then f else f + 1)"

definition exponent64 :: "real \<Rightarrow> int" where
  "exponent64 x = max \<lfloor>log 2 \<bar>x\<bar>\<rfloor> (- 1022)"

definition ulp64 :: "real \<Rightarrow> real" where
  "ulp64 x = 2 powr of_int (exponent64 x - 52)"

definition fl64 :: "real \<Rightarrow> real" where
  "fl64 x = (if x = 0 then 0 else of_int (roundEven (x / ulp64 x)) * ulp64 x)"

subsection \<open>calculateMatchScore\<close>

text \<open>
  \<open>currentLandmarks[i].visibility < 0.7\<close>: unlike the gate, the scorer does not test the
  entry before reading its \<open>visibility\<close>, so a missing entry is a \<open>TypeError\<close>.
\<close>

definition visibilityBelow :: "landmarks \<Rightarrow> nat \<Rightarrow> error + bool" where
  "visibilityBelow currentLandmarks i =
     (case entry currentLandmarks i of
        None \<Rightarrow> Inl TypeError
      | Some p \<Rightarrow> Inr (visibility p < 0.7))"

text \<open>The chain \<open>a || b || c || d\<close> of such tests, evaluated from the left and stopping at the first true one.\<close>

fun anyBelow :: "landmarks \<Rightarrow> nat list \<Rightarrow> error + bool" where
  "anyBelow currentLandmarks [] = Inr False"
| "anyBelow currentLandmarks (i # rest) =
     (case visibilityBelow currentLandmarks i of
        Inl e \<Rightarrow> Inl e
      | Inr True \<Rightarrow> Inr True
      | Inr False \<Rightarrow> anyBelow currentLandmarks rest)"

text \<open>
  \<open>Math.max(0, 100 * (1 - (diff / tolerance)))\<close>: the source writes this out for each of
  its five sub-scores.
\<close>

definition subScore :: "real \<Rightarrow> real \<Rightarrow> real" where
  "subScore diff tolerance = max 0 (100 * (1 - (diff / tolerance)))"

text \<open>\<open>Math.atan2(y, x)\<close> on real numbers.\<close>

definition atan2 :: "real \<Rightarrow> real \<Rightarrow> real" where
  "atan2 y x =
     (if 0 < x then arctan (y / x)
      else if x < 0 \<and> 0 \<le> y then arctan (y / x) + pi
      else if x < 0 then arctan (y / x) - pi
      else if 0 < y then pi / 2
      else if y < 0 then - (pi / 2)
      else 0)"

text \<open>
  \<open>v.toFixed(1)\<close>, read as a number: the multiple of one tenth nearest to the value of \<open>v\<close>,
  a tie going away from zero. The source applies it to binary64 values only; \<open>parseFloat\<close>
  of the result is the binary64 value nearest to that decimal.
\<close>

definition toFixed1 :: "real \<Rightarrow> real" where
  "toFixed1 v = (if v < 0 then - (of_int (round (10 * - v)) / 10) else of_int (round (10 * v)) / 10)"

text \<open>The sub-scores of an ARM challenge, on the landmarks of one side (all four present).\<close>

definition currentElbowAngle :: "landmark_indices \<Rightarrow> side \<Rightarrow> landmarks \<Rightarrow> real" where
  "currentElbowAngle L s currentLandmarks =
     (let lm = (\<lambda>i. the (entry currentLandmarks i))
      in calculateAngle (lm (sideSHOULDER L s)) (lm (sideELBOW L s)) (lm (sideWRIST L s)))"

definition currentShoulderAngle :: "landmark_indices \<Rightarrow> side \<Rightarrow> landmarks \<Rightarrow> real" where
  "currentShoulderAngle L s currentLandmarks =
     (let lm = (\<lambda>i. the (entry currentLandmarks i))
      in calculateAngle (lm (sideHIP L s)) (lm (sideSHOULDER L s)) (lm (sideELBOW L s)))"

definition diffElbow :: "config \<Rightarrow> side \<Rightarrow> landmarks \<Rightarrow> real" where
  "diffElbow cfg s currentLandmarks =
     \<bar>currentElbowAngle (LANDMARK_INDICES cfg) s currentLandmarks - target_ELBOW (TARGET_ANGLES cfg)\<bar>"

definition diffShoulder :: "config \<Rightarrow> side \<Rightarrow> landmarks \<Rightarrow> real" where
  "diffShoulder cfg s currentLandmarks =
     \<bar>currentShoulderAngle (LANDMARK_INDICES cfg) s currentLandmarks
        - target_SHOULDER (TARGET_ANGLES cfg)\<bar>"

definition scoreElbow :: "config \<Rightarrow> side \<Rightarrow> landmarks \<Rightarrow> real" where
  "scoreElbow cfg s currentLandmarks =
     subScore (diffElbow cfg s currentLandmarks) (tol_ELBOW (TOLERANCE cfg))"

definition scoreShoulder :: "config \<Rightarrow> side \<Rightarrow> landmarks \<Rightarrow> real" where
  "scoreShoulder cfg s currentLandmarks =
     subScore (diffShoulder cfg s currentLandmarks) (tol_SHOULDER (TOLERANCE cfg))"

text \<open>The sub-scores of a LEG_BALANCE challenge (right knee, ankle and hip and left hip present).\<close>

definition currentKneeAngle :: "landmark_indices \<Rightarrow> landmarks \<Rightarrow> real" where
  "currentKneeAngle L currentLandmarks =
     (let lm = (\<lambda>i. the (entry currentLandmarks i))
      in calculateAngle (lm (RIGHT_HIP L)) (lm (RIGHT_KNEE L)) (lm (RIGHT_ANKLE L)))"

definition diffKnee :: "config \<Rightarrow> landmarks \<Rightarrow> real" where
  "diffKnee cfg currentLandmarks =
     \<bar>currentKneeAngle (LANDMARK_INDICES cfg) currentLandmarks
        - target_KNEE_STRAIGHT (TARGET_ANGLES cfg)\<bar>"

definition scoreKnee :: "config \<Rightarrow> landmarks \<Rightarrow> real" where
  "scoreKnee cfg currentLandmarks =
     subScore (diffKnee cfg currentLandmarks) (tol_KNEE (TOLERANCE cfg))"

definition tiltDiff :: "landmark_indices \<Rightarrow> landmarks \<Rightarrow> real" where
  "tiltDiff L currentLandmarks =
     (let lm = (\<lambda>i. the (entry currentLandmarks i));
          angleRad = atan2 (pt_x (lm (RIGHT_HIP L)) - pt_x (lm (RIGHT_KNEE L)))
                           (pt_y (lm (RIGHT_HIP L)) - pt_y (lm (RIGHT_KNEE L)));
          verticalAngle = \<bar>angleRad * (180 / pi)\<bar>
      in min verticalAngle \<bar>180 - verticalAngle\<bar>)"

definition scoreTilt :: "config \<Rightarrow> landmarks \<Rightarrow> real" where
  "scoreTilt cfg currentLandmarks =
     subScore (tiltDiff (LANDMARK_INDICES cfg) currentLandmarks) (tol_TILT (TOLERANCE cfg))"

text \<open>
  \<open>canvasRef.current\<close> is the canvas element or \<open>null\<close>; the model keeps its \<open>height\<close>, the
  only property the scorer reads.
\<close>

definition hipDeltaY :: "landmark_indices \<Rightarrow> nat option \<Rightarrow> landmarks \<Rightarrow> real" where
  "hipDeltaY L canvasElement currentLandmarks =
     (let lm = (\<lambda>i. the (entry currentLandmarks i))
      in \<bar>pt_y (lm (RIGHT_HIP L)) - pt_y (lm (LEFT_HIP L))\<bar>
           * (case canvasElement of Some height \<Rightarrow> real height | None \<Rightarrow> 480))"

definition hipBalanceScore :: "landmark_indices \<Rightarrow> nat option \<Rightarrow> landmarks \<Rightarrow> real" where
  "hipBalanceScore L canvasElement currentLandmarks =
     subScore (hipDeltaY L canvasElement currentLandmarks) 20"

text \<open>
  The scorer. \<open>challenges\<close> and \<open>currentChallengeIndex\<close> are the component state it closes
  over; \<open>challenges[currentChallengeIndex]\<close> past the end is \<open>undefined\<close>.
\<close>

definition calculateMatchScore ::
    "config \<Rightarrow> nat option \<Rightarrow> challenge list \<Rightarrow> nat \<Rightarrow> landmarks \<Rightarrow> error + real" where
  "calculateMatchScore cfg canvasElement challenges currentChallengeIndex currentLandmarks =
     (let L = LANDMARK_INDICES cfg
      in if \<not> currentChallengeIndex < length challenges then Inr 0
         else
           (let challenge = challenges ! currentChallengeIndex
            in if targetType challenge = ''ARM'' then
                 (case sideOf challenge of
                    Inl e \<Rightarrow> Inl e
                  | Inr s \<Rightarrow>
                      (case anyBelow currentLandmarks
                              [sideSHOULDER L s, sideELBOW L s, sideWRIST L s, sideHIP L s] of
                         Inl e \<Rightarrow> Inl e
                       | Inr True \<Rightarrow> Inr 0
                       | Inr False \<Rightarrow>
                           (let totalScore = fl64 (0 + scoreElbow cfg s currentLandmarks);
                                totalScore = fl64 (totalScore + scoreShoulder cfg s currentLandmarks);
                                jointCount = 2
                            in Inr (fl64 (toFixed1 (fl64 (totalScore / jointCount)))))))
               else if targetType challenge = ''LEG_BALANCE'' then
                 (case anyBelow currentLandmarks
                         [RIGHT_KNEE L, RIGHT_ANKLE L, RIGHT_HIP L, LEFT_HIP L] of
                    Inl e \<Rightarrow> Inl e
                  | Inr True \<Rightarrow> Inr 0
                  | Inr False \<Rightarrow>
                      (let totalScore = fl64 (0 + scoreKnee cfg currentLandmarks);
                           totalScore = fl64 (totalScore + scoreTilt cfg currentLandmarks);
                           totalScore = fl64 (totalScore
                                              + hipBalanceScore L canvasElement currentLandmarks);
                           jointCount = 3
                       in Inr (fl64 (toFixed1 (fl64 (totalScore / jointCount))))))
               else Inr 0))"

subsection \<open>The arithmetic of the scorer in binary64\<close>

text \<open>
  \<open>Math.max(0, 100 * (1 - (diff / tolerance)))\<close> with each of its three operations rounded:
  the value the source computes for a sub-score from the binary64 values \<open>diff\<close> and
  \<open>tolerance\<close>.
\<close>

definition subScore64 :: "real \<Rightarrow> real \<Rightarrow> real" where
  "subScore64 diff tolerance = max 0 (fl64 (100 * fl64 (1 - fl64 (diff / tolerance))))"



text \<open>A loop \<open>totalScore += x\<close> over a list of numbers, from 0.\<close>

definition sum64 :: "real list \<Rightarrow> real" where
  "sum64 xs = foldl (\<lambda>totalScore x. fl64 (totalScore + x)) 0 xs"

text \<open>
  The score from the sub-scores added to \<open>totalScore\<close>, \<open>jointCount\<close> being their number:
  0 when there is none, else \<open>parseFloat((totalScore / jointCount).toFixed(1))\<close>.
\<close>

definition matchScore64 :: "real list \<Rightarrow> real" where
  "matchScore64 subScores =
     (let totalScore = sum64 subScores;
          jointCount = length subScores
      in if jointCount = 0 then 0
         else fl64 (toFixed1 (fl64 (totalScore / real jointCount))))"

subsection \<open>Component state\<close>

text \<open>
  The texts shown to the user are kept as tagged values: each constructor stands for one
  template string of the source and carries the values the template interpolates.
\<close>

datatype timerDisplay =
    NoTimer            \<comment> \<open>\<open>null\<close>\<close>
  | Remaining int      \<comment> \<open>the remaining seconds of the countdown\<close>
  | GO                 \<comment> \<open>\<open>'GO!'\<close>\<close>

datatype scoreDisplay =
    NoScore                  \<comment> \<open>\<open>'--'\<close>\<close>
  | Live real                \<comment> \<open>\<open>`${score.toFixed(1)} %`\<close>\<close>
  | Final real               \<comment> \<open>\<open>`${score.toFixed(1)} % (FINAL)`\<close>\<close>
  | Average "real option"    \<comment> \<open>\<open>`${averageScore.toFixed(1)} % (...)`\<close>; \<open>None\<close> is \<open>NaN\<close>\<close>

datatype guideMessage =
    CameraStarting             \<comment> \<open>the initial message\<close>
  | RaiseBothArms              \<comment> \<open>\<open>resetChallenge\<close>: raise both arms to start\<close>
  | PoseConfirmed string       \<comment> \<open>\<open>startPreparationPhase\<close>, with \<open>currentChallenge.message\<close>\<close>
  | GetReady int               \<comment> \<open>countdown, with \<open>remaining\<close>\<close>
  | Measuring int int          \<comment> \<open>hold, with \<open>holdTime + 1\<close> and \<open>HOLD_SECONDS\<close>\<close>
  | PoseFixedMessage           \<comment> \<open>pose fixed, computing the final score\<close>
  | DonePerfect string         \<comment> \<open>final score above 90, with the challenge name\<close>
  | DoneNearMiss string        \<comment> \<open>final score above 70\<close>
  | DoneGeneric string         \<comment> \<open>any other final score\<close>
  | AllDonePerfect "real option"   \<comment> \<open>\<open>showFinalResults\<close>, average above 90\<close>
  | AllDoneRetry "real option"     \<comment> \<open>\<open>showFinalResults\<close>, otherwise\<close>

record challengeState =
  isPoseFixed :: bool
  isChallengeStarted :: bool
  isInPreparationPhase :: bool
  finalPoseLandmarks :: "landmarks option"
  currentScore :: scoreDisplay
  guideMessage :: guideMessage
  timerDisplay :: timerDisplay
  challenges :: "challenge list"
  scoreColor :: string

text \<open>
  A function made by \<open>useCallback\<close> reads \<open>challengeState\<close> and \<open>currentChallengeIndex\<close> as
  they were in the render that made it, whatever the state is when it runs: \<open>seen\<close> and
  \<open>seenIndex\<close> are those two values. The updater functions it hands to
  \<open>setChallengeState\<close> act on the state of the time. The challenge objects are made once,
  when the component is mounted, and every later state shares them (an updater copies the
  array, not the objects, and writes the score into the object): what a function reads of
  a challenge through the array it has seen is what the current state holds, so the model
  reads the challenges from the current state.
\<close>

record closure =
  seen :: challengeState
  seenIndex :: nat

text \<open>The callbacks handed to \<open>setTimeout\<close>, each with the render it comes from.\<close>

datatype timeout =
    PreparationOver closure    \<comment> \<open>1500 ms: leave the preparation phase and call \<open>startChallengeTimer\<close>\<close>
  | Advance closure            \<comment> \<open>1000 ms: \<open>resetChallenge(true)\<close>\<close>

datatype logLine =
    ResultsHeader                       \<comment> \<open>\<open>"--- FINAL CHALLENGE RESULTS ---"\<close>\<close>
  | ScoreList "(string \<times> real) list"    \<comment> \<open>one line \<open>`${c.name}: ${c.score.toFixed(1)}%\n`\<close> per challenge\<close>
  | AverageLine "real option"           \<comment> \<open>\<open>`Average Score: ${averageScore.toFixed(1)}%`\<close>\<close>

text \<open>
  The state of the component: the two \<open>useState\<close> cells, the interval timers of
  \<open>startChallengeTimer\<close> that are live (each with its \<open>startTime\<close>), the timeouts that are
  scheduled with their delay in milliseconds, and the lines written to the console. A
  state update takes effect before the next callback runs; within one callback the updater
  functions are applied in the order of their calls.
\<close>

record session =
  challengeState :: challengeState
  currentChallengeIndex :: nat
  timers :: "int list"
  timeouts :: "(nat \<times> timeout) list"
  console :: "logLine list"

definition setChallengeState :: "(challengeState \<Rightarrow> challengeState) \<Rightarrow> session \<Rightarrow> session" where
  "setChallengeState f s = s\<lparr>challengeState := f (challengeState s)\<rparr>"

text \<open>What the functions made by the render of the state \<open>s\<close> see.\<close>

definition closureOf :: "session \<Rightarrow> closure" where
  "closureOf s = \<lparr>seen = challengeState s, seenIndex = currentChallengeIndex s\<rparr>"

text \<open>
  The initial values of the two \<open>useState\<close> cells, \<open>CHALLENGES\<close> being the imported list, and
  what the functions of the first render see.
\<close>

definition initialState :: "challenge list \<Rightarrow> challengeState" where
  "initialState CHALLENGES =
     \<lparr>isPoseFixed = False, isChallengeStarted = False, isInPreparationPhase = False,
      finalPoseLandmarks = None, currentScore = NoScore, guideMessage = CameraStarting,
      timerDisplay = NoTimer, challenges = CHALLENGES, scoreColor = ''#4CAF50''\<rparr>"

definition initialSession :: "challenge list \<Rightarrow> session" where
  "initialSession CHALLENGES =
     \<lparr>challengeState = initialState CHALLENGES, currentChallengeIndex = 0, timers = [],
      timeouts = [], console = []\<rparr>"

definition firstRender :: "challenge list \<Rightarrow> closure" where
  "firstRender CHALLENGES = closureOf (initialSession CHALLENGES)"

subsection \<open>showFinalResults and resetChallenge\<close>

text \<open>
  \<open>totalScore += c.score\<close> for each challenge, then \<open>totalScore / challenges.length\<close>, each
  operation rounded to binary64. For an empty list the quotient is \<open>NaN\<close>, and \<open>NaN > 90\<close> is
  false.
\<close>

definition averageScore :: "challenge list \<Rightarrow> real option" where
  "averageScore cs =
     (let totalScore = foldl (\<lambda>totalScore c. fl64 (totalScore + score c)) 0 cs
      in if cs = [] then None else Some (fl64 (totalScore / real (length cs))))"

definition showFinalResults :: "session \<Rightarrow> session" where
  "showFinalResults s =
     (let cs = challenges (challengeState s);
          scoreList = map (\<lambda>c. (name c, toFixed1 (score c))) cs;
          average = averageScore cs;
          shown = map_option toFixed1 average;
          above90 = (case average of None \<Rightarrow> False | Some a \<Rightarrow> a > 90);
          msg = (if above90 then AllDonePerfect shown else AllDoneRetry shown);
          color = (if above90 then ''#4CAF50'' else ''#FFC107'');
          s' = setChallengeState
                 (\<lambda>prev. prev\<lparr>currentScore := Average shown, guideMessage := msg,
                               scoreColor := color\<rparr>) s
      in s'\<lparr>console := console s' @ [ResultsHeader, ScoreList scoreList, AverageLine shown]\<rparr>)"

definition resetChallenge :: "closure \<Rightarrow> bool \<Rightarrow> session \<Rightarrow> session" where
  "resetChallenge c nextStage s =
     (let newIndex = (if nextStage then seenIndex c + 1 else seenIndex c)
      in if newIndex < length (challenges (challengeState s))
         then (setChallengeState
                 (\<lambda>prev. prev\<lparr>isPoseFixed := False, finalPoseLandmarks := None,
                               isChallengeStarted := False, isInPreparationPhase := False,
                               currentScore := NoScore, guideMessage := RaiseBothArms,
                               timerDisplay := NoTimer, scoreColor := ''#4CAF50''\<rparr>) s)
              \<lparr>currentChallengeIndex := newIndex\<rparr>
         else showFinalResults s)"

subsection \<open>startChallengeTimer\<close>

definition COUNTDOWN_SECONDS :: int where
  "COUNTDOWN_SECONDS = 3"

definition HOLD_SECONDS :: int where
  "HOLD_SECONDS = 5"

text \<open>\<open>now\<close> is \<open>Date.now()\<close>, in milliseconds, at the call.\<close>

definition startChallengeTimer :: "closure \<Rightarrow> int \<Rightarrow> session \<Rightarrow> session" where
  "startChallengeTimer c now s =
     (if isChallengeStarted (seen c) then s
      else (setChallengeState (\<lambda>prev. prev\<lparr>isChallengeStarted := True\<rparr>) s)
             \<lparr>timers := timers s @ [now]\<rparr>)"

text \<open>
  The callback of the interval that was started at \<open>startTime\<close>, run at time \<open>now\<close>; a
  cleared interval runs no callback. \<open>Math.floor\<close> of the quotient of two integers is
  \<open>div\<close>.
\<close>

definition timerTick :: "int \<Rightarrow> int \<Rightarrow> session \<Rightarrow> session" where
  "timerTick startTime now s =
     (if startTime \<notin> set (timers s) then s
      else
        (let elapsed = (now - startTime) div 1000
         in if elapsed < COUNTDOWN_SECONDS then
              (let remaining = COUNTDOWN_SECONDS - elapsed
               in setChallengeState
                    (\<lambda>prev. prev\<lparr>timerDisplay := Remaining remaining,
                                  guideMessage := GetReady remaining\<rparr>) s)
            else if elapsed < COUNTDOWN_SECONDS + HOLD_SECONDS then
              (let holdTime = elapsed - COUNTDOWN_SECONDS
               in setChallengeState
                    (\<lambda>prev. prev\<lparr>timerDisplay := GO,
                                  guideMessage := Measuring (holdTime + 1) HOLD_SECONDS\<rparr>) s)
            else
              setChallengeState
                (\<lambda>prev. prev\<lparr>isPoseFixed := True, timerDisplay := NoTimer,
                              guideMessage := PoseFixedMessage\<rparr>)
                (s\<lparr>timers := remove1 startTime (timers s)\<rparr>)))"

text \<open>
  The interval has a period of 1000 ms: its \<open>k\<close>-th callback runs at \<open>startTime + 1000 * k\<close>.
  \<open>runTicks startTime n s\<close> is the state after the first \<open>n\<close> callbacks, and
  \<open>sessionAt startTime t s\<close> the state \<open>t\<close> milliseconds after the timer was started, when
  nothing else has run in between.
\<close>

fun runTicks :: "int \<Rightarrow> nat \<Rightarrow> session \<Rightarrow> session" where
  "runTicks startTime 0 s = s"
| "runTicks startTime (Suc n) s =
     timerTick startTime (startTime + 1000 * (int n + 1)) (runTicks startTime n s)"

definition sessionAt :: "int \<Rightarrow> int \<Rightarrow> session \<Rightarrow> session" where
  "sessionAt startTime t s = runTicks startTime (nat (t div 1000)) s"

subsection \<open>startPreparationPhase\<close>

definition startPreparationPhase :: "closure \<Rightarrow> session \<Rightarrow> error + session" where
  "startPreparationPhase c s =
     (if isChallengeStarted (seen c) \<or> isInPreparationPhase (seen c) then Inr s
      else if \<not> seenIndex c < length (challenges (challengeState s)) then Inl TypeError
      else
        (let currentChallenge = challenges (challengeState s) ! seenIndex c;
             s' = setChallengeState
                    (\<lambda>prev. prev\<lparr>isInPreparationPhase := True,
                                  guideMessage := PoseConfirmed (message currentChallenge)\<rparr>) s
         in Inr (s'\<lparr>timeouts := timeouts s' @ [(1500, PreparationOver c)]\<rparr>)))"

text \<open>The callback of that timeout, run at time \<open>now\<close>.\<close>

definition preparationOver :: "closure \<Rightarrow> int \<Rightarrow> session \<Rightarrow> session" where
  "preparationOver c now s =
     startChallengeTimer c now
       (setChallengeState (\<lambda>prev. prev\<lparr>isInPreparationPhase := False\<rparr>) s)"

subsection \<open>onResults\<close>

text \<open>
  The three steps of the callback on a frame with landmarks. Each reads its condition from
  \<open>c\<close>, what the callback has seen, scores the frame on the challenges as they are in
  \<open>s\<close>, the state in which the callback runs, and applies its update to \<open>acc\<close>, that state
  with the updates queued so far. Drawing on the canvas changes no state and is left out.
\<close>

text \<open>
  Step 2, the moment the pose is fixed: the frame is copied, scored, and the score is stored
  in \<open>updatedChallenges[currentChallengeIndex].score\<close>, which is a \<open>TypeError\<close> when the
  index is past the end.
\<close>

definition finalizePose ::
    "config \<Rightarrow> nat option \<Rightarrow> closure \<Rightarrow> session \<Rightarrow> landmarks \<Rightarrow> session
       \<Rightarrow> error + session" where
  "finalizePose cfg canvasElement c s poseLandmarks acc =
     (let finalLandmarks = poseLandmarks;
          idx = seenIndex c
      in case calculateMatchScore cfg canvasElement (challenges (challengeState s)) idx
                finalLandmarks of
           Inl e \<Rightarrow> Inl e
         | Inr sc \<Rightarrow>
             if \<not> idx < length (challenges (challengeState acc)) then Inl TypeError
             else
               (let acc' = setChallengeState
                      (\<lambda>prev.
                         let updatedChallenges =
                               (challenges prev)[idx := (challenges prev ! idx)\<lparr>score := sc\<rparr>];
                             nm = name (updatedChallenges ! idx);
                             msg = (if sc > 90 then DonePerfect nm
                                    else if sc > 70 then DoneNearMiss nm
                                    else DoneGeneric nm);
                             color = (if sc > 90 then ''#4CAF50''
                                      else if sc > 70 then ''#FFC107''
                                      else ''#F44336'')
                         in prev\<lparr>finalPoseLandmarks := Some finalLandmarks,
                                  challenges := updatedChallenges,
                                  currentScore := Final (toFixed1 sc),
                                  guideMessage := msg,
                                  scoreColor := color\<rparr>) acc
                in Inr (acc'\<lparr>timeouts := timeouts acc' @ [(1000, Advance c)]\<rparr>)))"

text \<open>Step 3, the live score.\<close>

definition updateLiveScore ::
    "config \<Rightarrow> nat option \<Rightarrow> closure \<Rightarrow> session \<Rightarrow> landmarks \<Rightarrow> session
       \<Rightarrow> error + session" where
  "updateLiveScore cfg canvasElement c s poseLandmarks acc =
     (case calculateMatchScore cfg canvasElement (challenges (challengeState s))
             (seenIndex c) poseLandmarks of
        Inl e \<Rightarrow> Inl e
      | Inr sc \<Rightarrow>
          (let color = (if sc > 80 then ''#4CAF50''
                        else if sc > 50 then ''#FFA500''
                        else ''#F44336'')
           in Inr (setChallengeState
                     (\<lambda>prev. prev\<lparr>currentScore := Live (toFixed1 sc), scoreColor := color\<rparr>)
                     acc)))"

text \<open>
  \<open>onResults\<close> as made by the render \<open>c\<close>, run in the state \<open>s\<close>. \<open>results\<close> is reduced to
  \<open>results.poseLandmarks\<close>, \<open>None\<close> when the detector found no pose. A \<open>TypeError\<close> ends the
  callback; the model does not follow the state after it.
\<close>

definition onResults ::
    "config \<Rightarrow> nat option \<Rightarrow> closure \<Rightarrow> session \<Rightarrow> landmarks option \<Rightarrow> error + session" where
  "onResults cfg canvasElement c s results =
     (case canvasElement of
        None \<Rightarrow> Inr s
      | Some _ \<Rightarrow>
          (case results of
             None \<Rightarrow> Inr s
           | Some poseLandmarks \<Rightarrow>
               (case (if \<not> isChallengeStarted (seen c) \<and> \<not> isInPreparationPhase (seen c) \<and>
                         seenIndex c < length (challenges (challengeState s)) \<and>
                         isStartPoseAchieved cfg (Some poseLandmarks)
                      then startPreparationPhase c s else Inr s) of
                  Inl e \<Rightarrow> Inl e
                | Inr s1 \<Rightarrow>
                    (case (if isPoseFixed (seen c) \<and> finalPoseLandmarks (seen c) = None
                           then finalizePose cfg canvasElement c s poseLandmarks s1
                           else Inr s1) of
                       Inl e \<Rightarrow> Inl e
                     | Inr s2 \<Rightarrow>
                         (if finalPoseLandmarks (seen c) = None \<and> isChallengeStarted (seen c)
                          then updateLiveScore cfg canvasElement c s poseLandmarks s2
                          else Inr s2)))))"

subsection \<open>The detector and the camera\<close>

text \<open>
  The effect registers \<open>onResults\<close> with the detector only while \<open>poseRef.current\<close> is
  empty, that is once, after the first render; later renders make a new \<open>onResults\<close> but
  the detector keeps the first. So every result of the detector is handled by the
  \<open>onResults\<close> of the first render.
\<close>

definition registeredOnResults ::
    "config \<Rightarrow> nat option \<Rightarrow> challenge list \<Rightarrow> session \<Rightarrow> landmarks option \<Rightarrow> error + session" where
  "registeredOnResults cfg canvasElement CHALLENGES s results =
     onResults cfg canvasElement (firstRender CHALLENGES) s results"

text \<open>
  \<open>onFrame\<close> of a camera made by the render \<open>c\<close>: an image goes to the detector, whose
  answer comes back through the registered callback, only while that render has not seen
  the pose fixed. \<open>detected\<close> is the detector's answer for the image.
\<close>

definition onFrame ::
    "config \<Rightarrow> nat option \<Rightarrow> challenge list \<Rightarrow> closure \<Rightarrow> session \<Rightarrow> landmarks option
       \<Rightarrow> error + session" where
  "onFrame cfg canvasElement CHALLENGES c s detected =
     (if \<not> isPoseFixed (seen c) then registeredOnResults cfg canvasElement CHALLENGES s detected
      else Inr s)"

text \<open>A sequence of results of the detector, each handled in the state the last one left.\<close>

fun feedFrames ::
    "config \<Rightarrow> nat option \<Rightarrow> challenge list \<Rightarrow> session \<Rightarrow> landmarks option list
       \<Rightarrow> error + session" where
  "feedFrames cfg canvasElement CHALLENGES s [] = Inr s"
| "feedFrames cfg canvasElement CHALLENGES s (results # rest) =
     (case registeredOnResults cfg canvasElement CHALLENGES s results of
        Inl e \<Rightarrow> Inl e
      | Inr s' \<Rightarrow> feedFrames cfg canvasElement CHALLENGES s' rest)"

subsection \<open>The phases of the specification\<close>

text \<open>
  The source keeps no phase variable; the phase of the specification is read off the flags
  of the state: \<open>Fixed\<close> once \<open>isPoseFixed\<close> is set, \<open>Hold\<close> while the timer shows \<open>GO!\<close>,
  \<open>Countdown\<close> from the start of the timer until then.
\<close>

datatype phase = Idle | Preparation | Countdown | Hold | Fixed

definition phaseOf :: "session \<Rightarrow> phase" where
  "phaseOf s =
     (let cs = challengeState s
      in if isPoseFixed cs then Fixed
         else if isChallengeStarted cs then (if timerDisplay cs = GO then Hold else Countdown)
         else if isInPreparationPhase cs then Preparation
         else Idle)"

text \<open>The arithmetic mean of a list of numbers.\<close>

definition mean :: "real list \<Rightarrow> real" where
  "mean xs = sum_list xs / real (length xs)"

text \<open>A frame has an entry at each of the given indices.\<close>

definition present :: "landmarks \<Rightarrow> nat list \<Rightarrow> bool" where
  "present lms idxs = list_all (\<lambda>i. entry lms i \<noteq> None) idxs"

text \<open>One of the entries at the given indices has visibility below 0.7.\<close>

definition lowVisibility :: "landmarks \<Rightarrow> nat list \<Rightarrow> bool" where
  "lowVisibility lms idxs =
     list_ex (\<lambda>i. case entry lms i of None \<Rightarrow> False | Some p \<Rightarrow> visibility p < 0.7) idxs"

subsection \<open>Example data\<close>

text \<open>The landmark numbers of the detector, and a table of targets and tolerances.\<close>

definition mediapipeIndices :: landmark_indices where
  "mediapipeIndices =
     \<lparr>LEFT_SHOULDER = 11, LEFT_ELBOW = 13, LEFT_WRIST = 15, LEFT_HIP = 23,
      RIGHT_SHOULDER = 12, RIGHT_ELBOW = 14, RIGHT_WRIST = 16, RIGHT_HIP = 24,
      RIGHT_KNEE = 26, RIGHT_ANKLE = 28\<rparr>"

definition exampleConfig :: config where
  "exampleConfig =
     \<lparr>LANDMARK_INDICES = mediapipeIndices,
      TARGET_ANGLES = \<lparr>target_ELBOW = 180, target_SHOULDER = 180, target_KNEE_STRAIGHT = 180\<rparr>,
      TOLERANCE = \<lparr>tol_ELBOW = 20, tol_SHOULDER = 20, tol_KNEE = 20, tol_TILT = 10,
                   START_TOLERANCE = 30\<rparr>\<rparr>"

text \<open>A frame of 33 landmarks, all present, given by a function of the landmark number.\<close>

definition frameOf :: "(nat \<Rightarrow> point) \<Rightarrow> landmarks" where
  "frameOf f = map (\<lambda>i. Some (f i)) [0..<33]"

text \<open>
  A body standing upright with both arms straight up: wrists at height 0, elbows at 1,
  shoulders at 2, hips at 3, knees at 4, everything else at 5; the left landmarks (odd
  numbers) at \<open>x = 1\<close>, the right ones at \<open>x = 0\<close>.
\<close>

definition uprightY :: "nat \<Rightarrow> real" where
  "uprightY i =
     (if i = 15 \<or> i = 16 then 0
      else if i = 13 \<or> i = 14 then 1
      else if i = 11 \<or> i = 12 then 2
      else if i = 23 \<or> i = 24 then 3
      else if i = 25 \<or> i = 26 then 4
      else 5)"

definition upright :: "nat \<Rightarrow> point" where
  "upright i = \<lparr>pt_x = (if odd i then 1 else 0), pt_y = uprightY i, visibility = 1\<rparr>"

text \<open>The same body with landmark \<open>k\<close> seen at visibility 0.69.\<close>

definition dimmed :: "nat \<Rightarrow> nat \<Rightarrow> point" where
  "dimmed k i = (upright i)\<lparr>visibility := (if i = k then 0.69 else 1)\<rparr>"

text \<open>The same body with the left side out of sight.\<close>

definition rightOnly :: "nat \<Rightarrow> point" where
  "rightOnly i = (upright i)\<lparr>visibility := (if odd i then 0 else 1)\<rparr>"



definition leftArm :: challenge where
  "leftArm = \<lparr>name = ''Left arm'', targetType = ''ARM'',
              evalJoints = Some [''LEFT_ELBOW'', ''LEFT_SHOULDER''],
              message = ''Raise the left arm'', score = 0\<rparr>"

definition rightArm :: challenge where
  "rightArm = \<lparr>name = ''Right arm'', targetType = ''ARM'',
               evalJoints = Some [''RIGHT_ELBOW'', ''RIGHT_SHOULDER''],
               message = ''Raise the right arm'', score = 0\<rparr>"

definition legBalance :: challenge where
  "legBalance = \<lparr>name = ''Balance'', targetType = ''LEG_BALANCE'',
                 evalJoints = Some [''RIGHT_KNEE''],
                 message = ''Stand on the right leg'', score = 0\<rparr>"

text \<open>
  A session with one challenge: the component as mounted, the session with its timer
  started at time 0 by the callback of the first render, and that session once the pose is
  fixed.
\<close>

definition startedSession :: session where
  "startedSession = startChallengeTimer (firstRender [leftArm]) 0 (initialSession [leftArm])"

definition fixedSession :: session where
  "fixedSession = sessionAt 0 8000 startedSession"

text \<open>Three challenges with the final scores 100, 80 and 60.\<close>

definition scoredChallenges :: "challenge list" where
  "scoredChallenges = [leftArm\<lparr>score := 100\<rparr>, rightArm\<lparr>score := 80\<rparr>, legBalance\<lparr>score := 60\<rparr>]"

text \<open>
  Four challenges with the final scores 70.0, 90.3, 99.9 and 99.8, each the binary64
  value that \<open>parseFloat\<close> gives for its decimal.
\<close>

definition score903 :: real where
  "score903 = 6354297599243059 / 2 ^ 46"

definition score999 :: real where
  "score999 = 3514918771674317 / 2 ^ 45"

definition score998 :: real where
  "score998 = 7022800668930867 / 2 ^ 46"

definition tiedChallenges :: "challenge list" where
  "tiedChallenges =
     [leftArm\<lparr>score := 70\<rparr>, rightArm\<lparr>score := score903\<rparr>,
      legBalance\<lparr>score := score999\<rparr>, leftArm\<lparr>score := score998\<rparr>]"

section \<open>Properties\<close>

subsection \<open>Reading the example frames\<close>

lemma entry_frameOf: "entry (frameOf f) i = (if i < 33 then Some (f i) else None)"
  by (simp add: entry_def frameOf_def)

lemma upright_angles:
  "calculateAngle (upright 11) (upright 13) (upright 15) = 180"
  "calculateAngle (upright 23) (upright 11) (upright 13) = 180"
  "calculateAngle (upright 12) (upright 14) (upright 16) = 180"
  "calculateAngle (upright 24) (upright 12) (upright 14) = 180"
  "calculateAngle (upright 24) (upright 26) (upright 28) = 180"
  by (simp_all add: calculateAngle_def Let_def upright_def uprightY_def)

lemma calculateAngle_visibility:
  "calculateAngle (A\<lparr>visibility := a\<rparr>) (M\<lparr>visibility := m\<rparr>) (B\<lparr>visibility := b\<rparr>) =
     calculateAngle A M B"
  by (simp add: calculateAngle_def)

subsection \<open>The angle\<close>

lemma calculateAngle_commute: "calculateAngle A M B = calculateAngle B M A"
  by (simp add: calculateAngle_def Let_def mult.commute add.commute conj_commute)

lemma calculateAngle_range: "0 \<le> calculateAngle A M B \<and> calculateAngle A M B \<le> 180"
proof -
  have clamped: "0 \<le> arccos (max (- 1) (min 1 c)) \<and> arccos (max (- 1) (min 1 c)) \<le> pi"
    for c :: real
    by (rule arccos_bounded) auto
  have degrees: "0 \<le> a * (180 / pi) \<and> a * (180 / pi) \<le> 180" if "0 \<le> a" and "a \<le> pi"
    for a :: real
  proof -
    have "a * (180 / pi) \<le> pi * (180 / pi)"
      using that by (intro mult_right_mono) auto
    with that show ?thesis by simp
  qed
  show ?thesis
    using clamped degrees by (simp add: calculateAngle_def Let_def)
qed

text \<open>
  Claim C7. The angle is the same when \<open>A\<close> and \<open>B\<close> are swapped; it is the sentinel 0 when
  \<open>A\<close> or \<open>B\<close> has the coordinates of \<open>M\<close>, so that a ray has length zero; and it always lies
  between 0 and 180 degrees.
\<close>

theorem calculateAngle_symmetric_sentinel_range:
  "calculateAngle A M B = calculateAngle B M A \<and>
   ((pt_x A = pt_x M \<and> pt_y A = pt_y M) \<or> (pt_x B = pt_x M \<and> pt_y B = pt_y M)
      \<longrightarrow> calculateAngle A M B = 0) \<and>
   0 \<le> calculateAngle A M B \<and> calculateAngle A M B \<le> 180"
proof -
  have "calculateAngle A M B = 0"
    if "(pt_x A = pt_x M \<and> pt_y A = pt_y M) \<or> (pt_x B = pt_x M \<and> pt_y B = pt_y M)"
    using that by (auto simp add: calculateAngle_def Let_def)
  then show ?thesis
    using calculateAngle_commute [of A M B] calculateAngle_range [of A M B] by blast
qed

theorem calculateAngle_symmetric_sentinel_range_witness:
  "calculateAngle (upright 13) (upright 13) (upright 15) = 0 \<and>
   calculateAngle (upright 11) (upright 15) (upright 15) = 0"
  using calculateAngle_symmetric_sentinel_range [of "upright 13" "upright 13" "upright 15"]
    calculateAngle_symmetric_sentinel_range [of "upright 11" "upright 15" "upright 15"]
  by simp

subsection \<open>The start pose\<close>




text \<open>
  Claim C10. The gate answers false, and does not fail, when the landmark array is absent
  and when one of the eight required entries is missing from the array.
\<close>

theorem isStartPoseAchieved_absent:
  "isStartPoseAchieved cfg None = False \<and>
   (\<forall>i \<in> set (requiredLandmarks (LANDMARK_INDICES cfg)).
      entry lms i = None \<longrightarrow> isStartPoseAchieved cfg (Some lms) = False)"
  by (auto simp add: isStartPoseAchieved_def Let_def list_ex_iff notVisible_def)

text \<open>An empty array, and the upright frame with the entry of the right elbow removed.\<close>

theorem isStartPoseAchieved_absent_witness:
  "\<not> isStartPoseAchieved exampleConfig (Some []) \<and>
   \<not> isStartPoseAchieved exampleConfig (Some ((frameOf upright)[14 := None]))"
proof
  show "\<not> isStartPoseAchieved exampleConfig (Some [])"
    using isStartPoseAchieved_absent [of exampleConfig "[]"]
    by (auto simp add: requiredLandmarks_def entry_def)
  have "entry ((frameOf upright)[14 := None]) 14 = None"
    by (simp add: entry_def frameOf_def)
  then show "\<not> isStartPoseAchieved exampleConfig (Some ((frameOf upright)[14 := None]))"
    using isStartPoseAchieved_absent [of exampleConfig "(frameOf upright)[14 := None]"]
    by (auto simp add: requiredLandmarks_def exampleConfig_def mediapipeIndices_def)
qed


subsection \<open>Rounding to binary64\<close>

lemma roundEven_of_int [simp]: "roundEven (of_int n) = n"
  by (simp add: roundEven_def)

lemma roundEven_bounds:
  "y - 1 / 2 \<le> of_int (roundEven y) \<and> of_int (roundEven y) \<le> y + 1 / 2"
proof -
  have "of_int \<lfloor>y\<rfloor> \<le> y" "y < of_int \<lfloor>y\<rfloor> + 1" by linarith+
  then show ?thesis
    unfolding roundEven_def Let_def
    by (cases "y - of_int \<lfloor>y\<rfloor> < 1 / 2"; cases "1 / 2 < y - of_int \<lfloor>y\<rfloor>";
        cases "even \<lfloor>y\<rfloor>"; simp; linarith)
qed

lemma roundEven_mono: "x \<le> y \<Longrightarrow> roundEven x \<le> roundEven y"
proof -
  assume xy: "x \<le> y"
  then have f: "\<lfloor>x\<rfloor> \<le> \<lfloor>y\<rfloor>" by (rule floor_mono)
  have lo: "\<lfloor>z\<rfloor> \<le> roundEven z" and hi: "roundEven z \<le> \<lfloor>z\<rfloor> + 1" for z
    by (auto simp add: roundEven_def Let_def)
  show ?thesis
  proof (cases "\<lfloor>x\<rfloor> = \<lfloor>y\<rfloor>")
    case True
    with xy show ?thesis by (auto simp add: roundEven_def Let_def)
  next
    case False
    with f have "\<lfloor>x\<rfloor> + 1 \<le> \<lfloor>y\<rfloor>" by simp
    with lo [of y] hi [of x] show ?thesis by linarith
  qed
qed

lemma roundEven_le_int: "y \<le> of_int n \<Longrightarrow> roundEven y \<le> n"
  using roundEven_mono [of y "of_int n"] by simp

lemma roundEven_ge_int: "of_int n \<le> y \<Longrightarrow> n \<le> roundEven y"
  using roundEven_mono [of "of_int n" y] by simp

lemma ulp64_pos [simp]: "0 < ulp64 x"
  by (simp add: ulp64_def)

lemma ulp64_nonneg [simp]: "0 \<le> ulp64 x"
  by (simp add: ulp64_def)

lemma ulp64_nonzero [simp]: "ulp64 x \<noteq> 0"
  by (simp add: ulp64_def)

lemma fl64_nonneg: "0 \<le> x \<Longrightarrow> 0 \<le> fl64 x"
proof -
  assume "0 \<le> x"
  then have "0 \<le> x / ulp64 x" by simp
  then have "0 \<le> roundEven (x / ulp64 x)"
    using roundEven_ge_int [of 0 "x / ulp64 x"] by simp
  then show ?thesis by (simp add: fl64_def)
qed

lemma fl64_nonpos: "x \<le> 0 \<Longrightarrow> fl64 x \<le> 0"
proof -
  assume "x \<le> 0"
  then have "x / ulp64 x \<le> 0" by (simp add: divide_le_0_iff)
  then have "roundEven (x / ulp64 x) \<le> 0"
    using roundEven_le_int [of "x / ulp64 x" 0] by simp
  then have "of_int (roundEven (x / ulp64 x)) * ulp64 x \<le> 0"
    by (simp add: mult_le_0_iff)
  then show ?thesis by (simp add: fl64_def)
qed

lemma exponent64_mono: "0 < x \<Longrightarrow> x \<le> y \<Longrightarrow> exponent64 x \<le> exponent64 y"
  unfolding exponent64_def
  by (intro max.mono floor_mono) simp_all

lemma exponent64_upper: "x \<noteq> 0 \<Longrightarrow> \<bar>x\<bar> < 2 powr of_int (exponent64 x + 1)"
proof -
  assume "x \<noteq> 0"
  then have p: "0 < \<bar>x\<bar>" by simp
  have "\<bar>x\<bar> < 2 powr of_int (\<lfloor>log 2 \<bar>x\<bar>\<rfloor> + 1)"
    using floor_log_eq_powr_iff [OF p, of 2 "\<lfloor>log 2 \<bar>x\<bar>\<rfloor>"] by simp
  also have "\<dots> \<le> 2 powr of_int (exponent64 x + 1)"
    by (simp add: exponent64_def)
  finally show ?thesis .
qed

lemma exponent64_lower:
  "x \<noteq> 0 \<Longrightarrow> - 1022 \<le> \<lfloor>log 2 \<bar>x\<bar>\<rfloor> \<Longrightarrow> 2 powr of_int (exponent64 x) \<le> \<bar>x\<bar>"
proof -
  assume "x \<noteq> 0" and n: "- 1022 \<le> \<lfloor>log 2 \<bar>x\<bar>\<rfloor>"
  then have p: "0 < \<bar>x\<bar>" by simp
  have "exponent64 x = \<lfloor>log 2 \<bar>x\<bar>\<rfloor>" using n by (simp add: exponent64_def)
  then show ?thesis
    using floor_log_eq_powr_iff [OF p, of 2 "\<lfloor>log 2 \<bar>x\<bar>\<rfloor>"] by simp
qed

lemma exponent64_eq:
  assumes "2 powr of_int e \<le> \<bar>x\<bar>" and "\<bar>x\<bar> < 2 powr of_int (e + 1)" and "- 1022 \<le> e"
  shows "exponent64 x = e"
proof -
  have p: "0 < \<bar>x\<bar>"
    using assms(1) by (smt (verit) powr_gt_zero)
  have "\<lfloor>log 2 \<bar>x\<bar>\<rfloor> = e"
    using floor_log_eq_powr_iff [OF p, of 2 e] assms by simp
  then show ?thesis using assms(3) by (simp add: exponent64_def)
qed

lemma ulp64_ratio:
  assumes "0 < x" and "x \<le> b"
  shows "ulp64 b = ulp64 x * 2 ^ nat (exponent64 b - exponent64 x)"
proof -
  have le: "exponent64 x \<le> exponent64 b" using assms by (rule exponent64_mono)
  have "ulp64 x * 2 powr of_int (exponent64 b - exponent64 x) = ulp64 b"
    unfolding ulp64_def by (simp add: powr_add [symmetric])
  moreover have "(2::real) powr of_int (exponent64 b - exponent64 x) =
                 2 ^ nat (exponent64 b - exponent64 x)"
    using powr_real_of_int [of 2 "exponent64 b - exponent64 x"] le by simp
  ultimately show ?thesis by simp
qed

lemma fl64_le_repr:
  assumes xb: "x \<le> b" and b: "0 < b" and repr: "fl64 b = b"
  shows "fl64 x \<le> b"
proof (cases "0 < x")
  case False
  then have "fl64 x \<le> 0" by (intro fl64_nonpos) simp
  with b show ?thesis by simp
next
  case True
  define P :: int where "P = 2 ^ nat (exponent64 b - exponent64 x)"
  define N where "N = roundEven (b / ulp64 b)"
  have ub: "ulp64 b = ulp64 x * of_int P"
    using ulp64_ratio [OF True xb] by (simp add: P_def)
  have bN: "b = of_int N * ulp64 b"
    using repr b by (simp add: fl64_def N_def)
  then have "b / ulp64 x = of_int (N * P)"
    using ub by simp
  moreover have "x / ulp64 x \<le> b / ulp64 x"
    using xb by (simp add: divide_right_mono)
  ultimately have "roundEven (x / ulp64 x) \<le> N * P"
    using roundEven_le_int [of "x / ulp64 x" "N * P"] by simp
  then have "of_int (roundEven (x / ulp64 x)) \<le> (of_int (N * P) :: real)"
    by linarith
  then have "of_int (roundEven (x / ulp64 x)) * ulp64 x \<le> of_int (N * P) * ulp64 x"
    by (intro mult_right_mono) simp_all
  also have "\<dots> = b" using bN ub by simp
  finally show ?thesis using True by (simp add: fl64_def)
qed

lemma fl64_ge_one:
  assumes "1 \<le> x"
  shows "1 \<le> fl64 x"
proof -
  have x: "x \<noteq> 0" "\<bar>x\<bar> = x" using assms by simp_all
  have l: "0 \<le> \<lfloor>log 2 \<bar>x\<bar>\<rfloor>" using assms by simp
  then have e: "0 \<le> exponent64 x" by (simp add: exponent64_def)
  have low: "2 powr of_int (exponent64 x) \<le> x"
    using exponent64_lower [OF x(1)] l x(2) by simp
  have "2 powr of_int (exponent64 x) / ulp64 x = 2 powr 52"
    unfolding ulp64_def by (simp add: powr_diff [symmetric])
  then have u: "2 powr of_int (exponent64 x) / ulp64 x = of_int (2 ^ 52)"
    by simp
  have "2 powr of_int (exponent64 x) / ulp64 x \<le> x / ulp64 x"
    using low by (simp add: divide_right_mono)
  then have "2 ^ 52 \<le> roundEven (x / ulp64 x)"
    using roundEven_ge_int [of "2 ^ 52" "x / ulp64 x"] u by simp
  then have "(of_int (2 ^ 52) :: real) \<le> of_int (roundEven (x / ulp64 x))"
    by linarith
  then have "of_int (2 ^ 52) * ulp64 x \<le> of_int (roundEven (x / ulp64 x)) * ulp64 x"
    by (intro mult_right_mono) simp_all
  moreover have "of_int (2 ^ 52) * ulp64 x = 2 powr of_int (exponent64 x)"
    using u by (simp add: field_simps)
  moreover have "(1::real) \<le> 2 powr of_int (exponent64 x)"
    using e by (simp add: ge_one_powr_ge_zero)
  ultimately have "1 \<le> of_int (roundEven (x / ulp64 x)) * ulp64 x"
    by linarith
  then show ?thesis using x(1) by (simp add: fl64_def)
qed

lemma fl64_error:
  assumes "\<bar>x\<bar> \<le> 2 powr of_int k" and "- 1022 \<le> k"
  shows "\<bar>fl64 x - x\<bar> \<le> 2 powr of_int (k - 53)"
proof (cases "x = 0")
  case True
  then show ?thesis by (simp add: fl64_def)
next
  case False
  then have p: "0 < \<bar>x\<bar>" by simp
  have "log 2 \<bar>x\<bar> \<le> of_int k"
    using assms(1) p by (simp add: log_le_iff)
  then have "\<lfloor>log 2 \<bar>x\<bar>\<rfloor> \<le> k" by (simp add: floor_le_iff)
  then have e: "exponent64 x \<le> k" using assms(2) by (simp add: exponent64_def)
  define N where "N = roundEven (x / ulp64 x)"
  have "\<bar>of_int N - x / ulp64 x\<bar> \<le> 1 / 2"
    using roundEven_bounds [of "x / ulp64 x"] unfolding N_def by linarith
  then have "\<bar>of_int N - x / ulp64 x\<bar> * ulp64 x \<le> 1 / 2 * ulp64 x"
    by (intro mult_right_mono) simp_all
  moreover have "\<bar>of_int N - x / ulp64 x\<bar> * ulp64 x = \<bar>of_int N * ulp64 x - x\<bar>"
  proof -
    have "\<bar>of_int N - x / ulp64 x\<bar> * ulp64 x = \<bar>(of_int N - x / ulp64 x) * ulp64 x\<bar>"
      by (simp add: abs_mult)
    also have "(of_int N - x / ulp64 x) * ulp64 x = of_int N * ulp64 x - x"
      by (simp add: algebra_simps)
    finally show ?thesis .
  qed
  ultimately have A: "\<bar>of_int N * ulp64 x - x\<bar> \<le> 1 / 2 * ulp64 x"
    by linarith
  have "1 / 2 * ulp64 x = 2 powr of_int (exponent64 x - 53)"
    unfolding ulp64_def by (simp add: powr_diff)
  moreover have "2 powr of_int (exponent64 x - 53) \<le> (2::real) powr of_int (k - 53)"
    using e by simp
  ultimately have B: "1 / 2 * ulp64 x \<le> 2 powr of_int (k - 53)"
    by linarith
  have C: "fl64 x = of_int N * ulp64 x"
    using False by (simp add: fl64_def N_def)
  show ?thesis unfolding C using A B by linarith
qed

lemma fl64_binade:
  assumes "2 powr of_int e \<le> \<bar>x\<bar>" and "\<bar>x\<bar> < 2 powr of_int (e + 1)" and "- 1022 \<le> e"
  shows "fl64 x = of_int (roundEven (x / 2 powr of_int (e - 52))) * 2 powr of_int (e - 52)"
proof -
  have "x \<noteq> 0" using assms(1) by (smt (verit) powr_gt_zero)
  then show ?thesis
    using exponent64_eq [OF assms] by (simp add: fl64_def ulp64_def)
qed

lemma roundEven_numeral [simp]: "roundEven (numeral n) = numeral n"
  using roundEven_of_int [of "numeral n"] by simp

lemma fl64_1 [simp]: "fl64 1 = 1"
  using fl64_binade [of 0 1] by (simp add: powr_neg_numeral)

lemma fl64_100 [simp]: "fl64 100 = 100"
  using fl64_binade [of 6 100] by (simp add: powr_neg_numeral)

lemma fl64_0 [simp]: "fl64 0 = 0"
  by (simp add: fl64_def)

lemma fl64_error_1: "\<bar>x\<bar> \<le> 1 \<Longrightarrow> \<bar>fl64 x - x\<bar> \<le> 1 / 2 ^ 53"
  using fl64_error [of x 0] by (simp add: powr_neg_numeral)

lemma fl64_error_128: "\<bar>x\<bar> \<le> 128 \<Longrightarrow> \<bar>fl64 x - x\<bar> \<le> 1 / 2 ^ 46"
  using fl64_error [of x 7] by (simp add: powr_neg_numeral)



lemma subScore64_beyond:
  assumes "0 < t" and "t \<le> d"
  shows "subScore64 d t = 0"
proof -
  have "1 \<le> d / t" using assms by simp
  then have "1 \<le> fl64 (d / t)" by (rule fl64_ge_one)
  then have "fl64 (1 - fl64 (d / t)) \<le> 0" by (intro fl64_nonpos) simp
  then have "fl64 (100 * fl64 (1 - fl64 (d / t))) \<le> 0" by (intro fl64_nonpos) simp
  then show ?thesis by (simp add: subScore64_def)
qed

lemma three_roundings:
  fixes q r s c :: real
  assumes "\<bar>q - c\<bar> \<le> 1 / 2 ^ 53" and "\<bar>r - (1 - q)\<bar> \<le> 1 / 2 ^ 53"
    and "\<bar>s - 100 * r\<bar> \<le> 1 / 2 ^ 46"
  shows "\<bar>s - 100 * (1 - c)\<bar> \<le> 1 / 2 ^ 44"
proof -
  define e :: real where "e = 1 / 2 ^ 53"
  have e: "1 / 2 ^ 46 = 128 * e" "1 / 2 ^ 44 = 512 * e" "0 \<le> e" by (simp_all add: e_def)
  have a: "\<bar>q - c\<bar> \<le> e" "\<bar>r - (1 - q)\<bar> \<le> e" "\<bar>s - 100 * r\<bar> \<le> 128 * e"
    using assms unfolding e by (simp_all add: e_def)
  have "\<bar>s - 100 * (1 - c)\<bar> \<le> 512 * e"
    using a e(3) unfolding abs_le_iff by auto
  then show ?thesis unfolding e .
qed

lemma subScore64_linear:
  assumes "0 \<le> d" and "0 < t" and "d \<le> t"
  shows "\<bar>subScore64 d t - 100 * (1 - d / t)\<bar> \<le> 1 / 2 ^ 44"
proof -
  define q where "q = fl64 (d / t)"
  define r where "r = fl64 (1 - q)"
  define s where "s = fl64 (100 * r)"
  have x: "0 \<le> d / t" "d / t \<le> 1" using assms by simp_all
  have q: "0 \<le> q" "q \<le> 1" "\<bar>q - d / t\<bar> \<le> 1 / 2 ^ 53"
    unfolding q_def
    using x fl64_nonneg [of "d / t"] fl64_le_repr [of "d / t" 1] fl64_error_1 [of "d / t"]
    by simp_all
  have r: "0 \<le> r" "r \<le> 1" "\<bar>r - (1 - q)\<bar> \<le> 1 / 2 ^ 53"
    unfolding r_def
    using q(1,2) fl64_nonneg [of "1 - q"] fl64_le_repr [of "1 - q" 1] fl64_error_1 [of "1 - q"]
    by simp_all
  have s: "0 \<le> s" "\<bar>s - 100 * r\<bar> \<le> 1 / 2 ^ 46"
    unfolding s_def
    using r(1,2) fl64_nonneg [of "100 * r"] fl64_error_128 [of "100 * r"]
    by simp_all
  have "subScore64 d t = s"
    using s(1) by (simp add: subScore64_def s_def r_def q_def)
  moreover have "\<bar>s - 100 * (1 - d / t)\<bar> \<le> 1 / 2 ^ 44"
    using q(3) r(3) s(2) by (rule three_roundings)
  ultimately show ?thesis by simp
qed


text \<open>
  The sub-score read in exact arithmetic, which the scorer above adds up, is within
  \<open>1 / 2 ^ 44\<close> of the sub-score the source computes from the same deviation and tolerance.
\<close>

lemma subScore64_near_subScore:
  assumes "0 \<le> d" and "0 < t"
  shows "\<bar>subScore64 d t - subScore d t\<bar> \<le> 1 / 2 ^ 44"
proof (cases "d \<le> t")
  case True
  then have "d / t \<le> 1" using assms(2) by simp
  then have "subScore d t = 100 * (1 - d / t)" by (simp add: subScore_def)
  with subScore64_linear [OF assms True] show ?thesis by simp
next
  case False
  then have "t \<le> d" by simp
  then have "1 \<le> d / t" using assms(2) by simp
  then have "subScore d t = 0" by (simp add: subScore_def)
  moreover have "subScore64 d t = 0" using assms(2) \<open>t \<le> d\<close> by (rule subScore64_beyond)
  ultimately show ?thesis by simp
qed

lemma sum64_step: "foldl (\<lambda>total x. fl64 (total + x)) t (x # xs) =
    foldl (\<lambda>total x. fl64 (total + x)) (fl64 (t + x)) xs"
  by simp

lemma fl64_error_2pow17: "\<bar>x\<bar> \<le> 131072 \<Longrightarrow> \<bar>fl64 x - x\<bar> \<le> 1 / 2 ^ 36"
  using fl64_error [of x 17] by (simp add: powr_neg_numeral)

lemma foldl64_error:
  assumes "\<forall>x \<in> set xs. 0 \<le> x \<and> x \<le> 100"
    and "0 \<le> s" and "s + 100 * real (length xs) \<le> 100000"
    and "\<bar>t - s\<bar> \<le> a" and "0 \<le> a" and "a + real (length xs) / 2 ^ 36 \<le> 1"
  shows "\<bar>foldl (\<lambda>total x. fl64 (total + x)) t xs - (s + sum_list xs)\<bar>
           \<le> a + real (length xs) / 2 ^ 36"
  using assms
proof (induction xs arbitrary: t s a)
  case Nil
  then show ?case by simp
next
  case (Cons x xs)
  have x: "0 \<le> x" "x \<le> 100" using Cons.prems(1) by simp_all
  have n: "0 \<le> real (length xs) / 2 ^ 36" by simp
  have "0 \<le> real (length (x # xs)) / 2 ^ 36" "0 \<le> 100 * real (length (x # xs))"
    by simp_all
  with Cons.prems(3,6) have b: "a \<le> 1" "s \<le> 100000"
    by linarith+
  have "t \<le> s + a" "s - a \<le> t"
    using Cons.prems(4) unfolding abs_le_iff by linarith+
  with b x Cons.prems(2) have "t + x \<le> 131072" "- 131072 \<le> t + x"
    by linarith+
  then have "\<bar>t + x\<bar> \<le> 131072"
    unfolding abs_le_iff by linarith
  then have r: "\<bar>fl64 (t + x) - (t + x)\<bar> \<le> 1 / 2 ^ 36"
    by (rule fl64_error_2pow17)
  have 1: "\<forall>x \<in> set xs. 0 \<le> x \<and> x \<le> 100" using Cons.prems(1) by simp
  have 2: "0 \<le> s + x" using Cons.prems(2) x by simp
  have 3: "(s + x) + 100 * real (length xs) \<le> 100000"
    using Cons.prems(3) x by (simp add: algebra_simps)
  have 4: "\<bar>fl64 (t + x) - (s + x)\<bar> \<le> a + 1 / 2 ^ 36"
    using r Cons.prems(4) unfolding abs_le_iff by auto
  have 5: "0 \<le> a + 1 / 2 ^ 36" using Cons.prems(5) by simp
  have 6: "(a + 1 / 2 ^ 36) + real (length xs) / 2 ^ 36 \<le> 1"
    using Cons.prems(6) by (simp add: algebra_simps add_divide_distrib)
  from Cons.IH [OF 1 2 3 4 5 6]
  show ?case by (simp add: algebra_simps add_divide_distrib)
qed

lemma sum64_error:
  assumes "\<forall>x \<in> set xs. 0 \<le> x \<and> x \<le> 100" and "length xs \<le> 1000"
  shows "\<bar>sum64 xs - sum_list xs\<bar> \<le> real (length xs) / 2 ^ 36"
proof -
  have "real (length xs) \<le> 1000" using assms(2) by simp
  then have "0 + 100 * real (length xs) \<le> 100000" "0 + real (length xs) / 2 ^ 36 \<le> 1"
    by simp_all
  from foldl64_error [OF assms(1) _ this(1) _ _ this(2), of 0]
  show ?thesis by (simp add: sum64_def)
qed

lemma fl64_of_nat:
  assumes "0 < m" and "m < 2 ^ 53"
  shows "fl64 (real m) = real m"
proof -
  define e where "e = exponent64 (real m)"
  have m1: "1 \<le> real m" using assms(1) by simp
  then have l0: "0 \<le> \<lfloor>log 2 \<bar>real m\<bar>\<rfloor>" by simp
  then have e0: "0 \<le> e" by (simp add: e_def exponent64_def)
  have "- 1022 \<le> \<lfloor>log 2 \<bar>real m\<bar>\<rfloor>" using l0 by linarith
  moreover have "real m \<noteq> 0" using assms(1) by simp
  ultimately have "2 powr of_int (exponent64 (real m)) \<le> \<bar>real m\<bar>"
    by (intro exponent64_lower)
  then have low: "2 powr of_int e \<le> real m"
    by (simp add: e_def)
  have "real m < 2 ^ 53" using assms(2) by (metis of_nat_less_iff of_nat_numeral of_nat_power)
  then have "2 powr of_int e < (2::real) powr of_int 53"
    using low by simp
  then have e53: "e < 53" by (simp del: of_int_numeral)
  define k where "k = nat (52 - e)"
  have "ulp64 (real m) * 2 powr of_int (52 - e) = 1"
    unfolding ulp64_def e_def [symmetric] by (simp add: powr_add [symmetric])
  moreover have "(2::real) powr of_int (52 - e) = 2 ^ k"
    using powr_real_of_int [of 2 "52 - e"] e53 by (simp add: k_def)
  ultimately have u: "ulp64 (real m) * 2 ^ k = 1" by simp
  then have "real m / ulp64 (real m) = real m * 2 ^ k"
    by (simp add: field_simps)
  also have "\<dots> = of_int (int (m * 2 ^ k))" by simp
  finally have "roundEven (real m / ulp64 (real m)) = int (m * 2 ^ k)"
    by (simp only: roundEven_of_int)
  then have "fl64 (real m) = real m * 2 ^ k * ulp64 (real m)"
    using assms(1) by (simp add: fl64_def)
  also have "\<dots> = real m" using u by (simp add: algebra_simps)
  finally show ?thesis .
qed

lemma abs_chain:
  fixes a b c :: real
  assumes "\<bar>a - b\<bar> \<le> e1" and "\<bar>b - c\<bar> \<le> e2"
  shows "\<bar>a - c\<bar> \<le> e1 + e2"
  using assms by linarith

lemma sum_list_bounds:
  assumes "\<forall>x \<in> set xs. 0 \<le> x \<and> x \<le> (100::real)"
  shows "0 \<le> sum_list xs \<and> sum_list xs \<le> 100 * real (length xs)"
  using assms by (induction xs) auto

lemma foldl64_bounds:
  assumes "\<forall>x \<in> set xs. 0 \<le> x \<and> x \<le> 100"
    and "0 \<le> t" and "t \<le> 100 * real k" and "k + length xs \<le> 1000"
  shows "0 \<le> foldl (\<lambda>total x. fl64 (total + x)) t xs \<and>
         foldl (\<lambda>total x. fl64 (total + x)) t xs \<le> 100 * real (k + length xs)"
  using assms
proof (induction xs arbitrary: t k)
  case Nil
  then show ?case by simp
next
  case (Cons x xs)
  have x: "0 \<le> x" "x \<le> 100" using Cons.prems(1) by simp_all
  have r: "fl64 (real (100 * Suc k)) = real (100 * Suc k)"
    using Cons.prems(4) by (intro fl64_of_nat) simp_all
  have "t + x \<le> real (100 * Suc k)" using Cons.prems(3) x by simp
  then have up: "fl64 (t + x) \<le> 100 * real (Suc k)"
    using fl64_le_repr [OF _ _ r, of "t + x"] by simp
  have lo: "0 \<le> fl64 (t + x)" using Cons.prems(2) x by (intro fl64_nonneg) simp
  have 1: "\<forall>x \<in> set xs. 0 \<le> x \<and> x \<le> 100" using Cons.prems(1) by simp
  have 4: "Suc k + length xs \<le> 1000" using Cons.prems(4) by simp
  from Cons.IH [OF 1 lo up 4] show ?case by simp
qed


lemma mean64_error:
  assumes "\<forall>x \<in> set xs. 0 \<le> x \<and> x \<le> 100" and "xs \<noteq> []" and "length xs \<le> 1000"
  shows "\<bar>fl64 (sum64 xs / real (length xs)) - mean xs\<bar> \<le> 1 / 2 ^ 35"
proof -
  define n where "n = real (length xs)"
  have n: "1 \<le> n" using assms(2) by (cases xs) (simp_all add: n_def)
  from foldl64_bounds [OF assms(1), of 0 0] assms(3)
  have s: "0 \<le> sum64 xs" "sum64 xs \<le> 100 * n"
    by (simp_all add: sum64_def n_def)
  then have q: "0 \<le> sum64 xs / n" "sum64 xs / n \<le> 100"
    using n by (simp_all add: field_simps)
  then have "\<bar>sum64 xs / n\<bar> \<le> 128" by simp
  then have a: "\<bar>fl64 (sum64 xs / n) - sum64 xs / n\<bar> \<le> 1 / 2 ^ 46"
    by (rule fl64_error_128)
  have "\<bar>sum64 xs - sum_list xs\<bar> \<le> n / 2 ^ 36"
    using sum64_error [OF assms(1,3)] by (simp add: n_def)
  then have "\<bar>sum64 xs - sum_list xs\<bar> / n \<le> n / 2 ^ 36 / n"
    using n by (intro divide_right_mono) simp_all
  then have b: "\<bar>sum64 xs / n - sum_list xs / n\<bar> \<le> 1 / 2 ^ 36"
    using n by (simp add: diff_divide_distrib [symmetric])
  have "\<bar>fl64 (sum64 xs / n) - sum_list xs / n\<bar> \<le> 1 / 2 ^ 46 + 1 / 2 ^ 36"
    using a b by (rule abs_chain)
  also have "\<dots> \<le> 1 / 2 ^ 35" by simp
  finally show ?thesis by (simp add: mean_def n_def)
qed



subsection \<open>The sub-scores and the score\<close>

lemma toFixed1_numerals: "toFixed1 100 = 100" "toFixed1 0 = 0" "toFixed1 80 = 80"
  by (simp_all add: toFixed1_def)

lemma mean2: "mean [a, b] = (a + b) / 2" by (simp add: mean_def)
lemma mean3: "mean [a, b, c] = (a + b + c) / 3" by (simp add: mean_def)

lemma calculateMatchScore_arm:
  assumes "idx < length chs" "targetType (chs ! idx) = ''ARM''" "sideOf (chs ! idx) = Inr s"
    "anyBelow lms [sideSHOULDER (LANDMARK_INDICES cfg) s, sideELBOW (LANDMARK_INDICES cfg) s,
                   sideWRIST (LANDMARK_INDICES cfg) s, sideHIP (LANDMARK_INDICES cfg) s] = Inr b"
  shows "calculateMatchScore cfg c chs idx lms =
           Inr (if b then 0 else matchScore64 [scoreElbow cfg s lms, scoreShoulder cfg s lms])"
  using assms by (simp add: calculateMatchScore_def matchScore64_def sum64_def Let_def)

lemma calculateMatchScore_leg:
  assumes "idx < length chs" "targetType (chs ! idx) = ''LEG_BALANCE''"
    "anyBelow lms [RIGHT_KNEE (LANDMARK_INDICES cfg), RIGHT_ANKLE (LANDMARK_INDICES cfg),
                   RIGHT_HIP (LANDMARK_INDICES cfg), LEFT_HIP (LANDMARK_INDICES cfg)] = Inr b"
  shows "calculateMatchScore cfg c chs idx lms =
           Inr (if b then 0 else matchScore64 [scoreKnee cfg lms, scoreTilt cfg lms,
                  hipBalanceScore (LANDMARK_INDICES cfg) c lms])"
  using assms by (simp add: calculateMatchScore_def matchScore64_def sum64_def Let_def)

lemma calculateMatchScore_other:
  "\<not> idx < length chs \<Longrightarrow> calculateMatchScore cfg c chs idx lms = Inr 0"
  "targetType (chs ! idx) \<noteq> ''ARM'' \<Longrightarrow> targetType (chs ! idx) \<noteq> ''LEG_BALANCE'' \<Longrightarrow>
     calculateMatchScore cfg c chs idx lms = Inr 0"
  by (simp_all add: calculateMatchScore_def Let_def)

lemma anyBelow_present:
  "present lms idxs \<Longrightarrow> anyBelow lms idxs = Inr (lowVisibility lms idxs)"
  by (induction idxs)
     (auto simp add: present_def lowVisibility_def visibilityBelow_def split: bool.splits)

text \<open>The scorer reads the visibility of an entry without testing that the entry is there.\<close>

lemma anyBelow_missing_first:
  "entry lms i = None \<Longrightarrow> anyBelow lms (i # rest) = Inl TypeError"
  by (simp add: visibilityBelow_def)

lemma calculateMatchScore_missing_entry:
  assumes "idx < length chs" and "targetType (chs ! idx) = ''ARM''"
    and "sideOf (chs ! idx) = Inr s"
    and "entry lms (sideSHOULDER (LANDMARK_INDICES cfg) s) = None"
  shows "calculateMatchScore cfg c chs idx lms = Inl TypeError"
  using assms by (simp add: calculateMatchScore_def Let_def visibilityBelow_def)

subsection \<open>The example frames, scored\<close>

lemmas frame_simps =
  entry_frameOf exampleConfig_def mediapipeIndices_def
  sideSHOULDER_def sideELBOW_def sideWRIST_def sideHIP_def

lemmas score_defs =
  scoreElbow_def diffElbow_def currentElbowAngle_def
  scoreShoulder_def diffShoulder_def currentShoulderAngle_def
  scoreKnee_def diffKnee_def currentKneeAngle_def
  scoreTilt_def tiltDiff_def hipBalanceScore_def hipDeltaY_def subScore_def

lemma upright_scores:
  "scoreElbow exampleConfig s (frameOf upright) = 100"
  "scoreShoulder exampleConfig s (frameOf upright) = 100"
  "scoreKnee exampleConfig (frameOf upright) = 100"
  "scoreTilt exampleConfig (frameOf upright) = 100"
  "hipBalanceScore mediapipeIndices (Some 480) (frameOf upright) = 100"
      apply (cases s; simp add: score_defs frame_simps upright_angles Let_def)
     apply (cases s; simp add: score_defs frame_simps upright_angles Let_def)
    apply (simp add: score_defs frame_simps upright_angles Let_def)
   apply (simp add: score_defs frame_simps Let_def upright_def uprightY_def atan2_def)
  apply (simp add: score_defs frame_simps Let_def upright_def uprightY_def)
  done

lemma rightOnly_scores:
  "scoreElbow exampleConfig RIGHT (frameOf rightOnly) = 100"
  "scoreShoulder exampleConfig RIGHT (frameOf rightOnly) = 100"
  by (simp_all add: score_defs frame_simps rightOnly_def calculateAngle_visibility
      upright_angles Let_def)

lemma anyBelow_upright:
  "anyBelow (frameOf upright) [11, 13, 15, 23] = Inr False"
  "anyBelow (frameOf upright) [12, 14, 16, 24] = Inr False"
  "anyBelow (frameOf upright) [26, 28, 24, 23] = Inr False"
  by (simp_all add: visibilityBelow_def entry_frameOf upright_def)

lemma sideOf_examples: "sideOf leftArm = Inr LEFT" "sideOf rightArm = Inr LEFT"
  by (simp_all add: sideOf_def leftArm_def rightArm_def)



text \<open>
  Claim C1. The side is taken from the first evaluation joint by a test for the letter
  \<open>L\<close>. The names \<open>RIGHT_ELBOW\<close> and \<open>RIGHT_SHOULDER\<close> contain that letter: an ARM
  challenge configured with them is scored on the left landmarks. On a frame whose left
  side is out of sight and whose right arm is exactly on target, the score is 0, where the
  right side would score 100.
\<close>

theorem right_named_joints_scored_on_left:
  "sideOf rightArm = Inr LEFT \<and>
   calculateMatchScore exampleConfig (Some 480) [rightArm] 0 (frameOf rightOnly) = Inr 0 \<and>
   toFixed1 (mean [scoreElbow exampleConfig RIGHT (frameOf rightOnly),
                   scoreShoulder exampleConfig RIGHT (frameOf rightOnly)]) = 100"
proof -
  have "anyBelow (frameOf rightOnly) [11, 13, 15, 23] = Inr True"
    by (simp add: visibilityBelow_def entry_frameOf rightOnly_def)
  then have "calculateMatchScore exampleConfig (Some 480) [rightArm] 0 (frameOf rightOnly) = Inr 0"
    using calculateMatchScore_arm [of 0 "[rightArm]" LEFT "frameOf rightOnly" exampleConfig True
            "Some 480"]
    by (simp add: sideOf_examples frame_simps) (simp add: rightArm_def)
  then show ?thesis
    by (simp add: sideOf_examples rightOnly_scores mean2 toFixed1_numerals)
qed

subsection \<open>Failures of the scorer\<close>

text \<open>
  Claim C8, as stated, fails: an ARM challenge without \<open>evalJoints\<close> makes the scorer
  raise a \<open>TypeError\<close>; it does not return 0.
\<close>

theorem missing_evalJoints_raises:
  "calculateMatchScore exampleConfig (Some 480) [leftArm\<lparr>evalJoints := None\<rparr>] 0 (frameOf upright)
     = Inl TypeError"
  by (simp add: calculateMatchScore_def sideOf_def leftArm_def)

text \<open>
  Claim C8, amended. The gate never fails: it is false on an absent array and whenever a
  required entry is missing or has visibility below 0.7. The scorer returns 0 when there is
  no current challenge and when the target type is neither ARM nor LEG_BALANCE, whatever
  \<open>evalJoints\<close> is; on a frame that has the four landmarks it reads it returns a number,
  which is 0 when one of them has visibility below 0.7; and on an ARM challenge whose
  \<open>evalJoints\<close> is missing or empty it raises a \<open>TypeError\<close>.
\<close>

theorem scoring_total_on_present_landmarks:
  assumes "L = LANDMARK_INDICES cfg"
  shows
    "(\<not> idx < length chs \<longrightarrow> calculateMatchScore cfg c chs idx lms = Inr 0) \<and>
     (targetType (chs ! idx) \<noteq> ''ARM'' \<and> targetType (chs ! idx) \<noteq> ''LEG_BALANCE''
        \<longrightarrow> calculateMatchScore cfg c chs idx lms = Inr 0) \<and>
     (idx < length chs \<and> targetType (chs ! idx) = ''ARM'' \<and>
      (evalJoints (chs ! idx) = None \<or> evalJoints (chs ! idx) = Some [])
        \<longrightarrow> calculateMatchScore cfg c chs idx lms = Inl TypeError) \<and>
     (idx < length chs \<and> targetType (chs ! idx) = ''ARM'' \<and> sideOf (chs ! idx) = Inr s \<and>
      present lms [sideSHOULDER L s, sideELBOW L s, sideWRIST L s, sideHIP L s]
        \<longrightarrow> (\<exists>v. calculateMatchScore cfg c chs idx lms = Inr v) \<and>
            (lowVisibility lms [sideSHOULDER L s, sideELBOW L s, sideWRIST L s, sideHIP L s]
               \<longrightarrow> calculateMatchScore cfg c chs idx lms = Inr 0)) \<and>
     (idx < length chs \<and> targetType (chs ! idx) = ''LEG_BALANCE'' \<and>
      present lms [RIGHT_KNEE L, RIGHT_ANKLE L, RIGHT_HIP L, LEFT_HIP L]
        \<longrightarrow> (\<exists>v. calculateMatchScore cfg c chs idx lms = Inr v) \<and>
            (lowVisibility lms [RIGHT_KNEE L, RIGHT_ANKLE L, RIGHT_HIP L, LEFT_HIP L]
               \<longrightarrow> calculateMatchScore cfg c chs idx lms = Inr 0)) \<and>
     isStartPoseAchieved cfg None = False \<and>
     (list_ex (notVisible lms) (requiredLandmarks L) \<longrightarrow> isStartPoseAchieved cfg (Some lms) = False)"
proof -
  have 1: "calculateMatchScore cfg c chs idx lms = Inl TypeError"
    if "idx < length chs" "targetType (chs ! idx) = ''ARM''"
      "evalJoints (chs ! idx) = None \<or> evalJoints (chs ! idx) = Some []"
    using that by (auto simp add: calculateMatchScore_def sideOf_def)
  have 2: "(\<exists>v. calculateMatchScore cfg c chs idx lms = Inr v) \<and>
           (lowVisibility lms [sideSHOULDER L s, sideELBOW L s, sideWRIST L s, sideHIP L s]
              \<longrightarrow> calculateMatchScore cfg c chs idx lms = Inr 0)"
    if "idx < length chs" "targetType (chs ! idx) = ''ARM''" "sideOf (chs ! idx) = Inr s"
      "present lms [sideSHOULDER L s, sideELBOW L s, sideWRIST L s, sideHIP L s]"
    using calculateMatchScore_arm [OF that(1-3), of lms cfg _ c]
      anyBelow_present [OF that(4)] assms by simp
  have 3: "(\<exists>v. calculateMatchScore cfg c chs idx lms = Inr v) \<and>
           (lowVisibility lms [RIGHT_KNEE L, RIGHT_ANKLE L, RIGHT_HIP L, LEFT_HIP L]
              \<longrightarrow> calculateMatchScore cfg c chs idx lms = Inr 0)"
    if "idx < length chs" "targetType (chs ! idx) = ''LEG_BALANCE''"
      "present lms [RIGHT_KNEE L, RIGHT_ANKLE L, RIGHT_HIP L, LEFT_HIP L]"
    using calculateMatchScore_leg [OF that(1-2), of lms cfg _ c]
      anyBelow_present [OF that(3)] assms by simp
  have 4: "isStartPoseAchieved cfg None = False"
    "list_ex (notVisible lms) (requiredLandmarks L) \<Longrightarrow> isStartPoseAchieved cfg (Some lms) = False"
    using assms by (simp_all add: isStartPoseAchieved_def Let_def)
  from 1 2 3 4 calculateMatchScore_other show ?thesis
    by blast
qed

theorem scoring_total_on_present_landmarks_witness:
  "calculateMatchScore exampleConfig (Some 480)
     [\<lparr>name = ''Dance'', targetType = ''DANCE'', evalJoints = None, message = [], score = 0\<rparr>] 0
     (frameOf upright) = Inr 0 \<and>
   calculateMatchScore exampleConfig (Some 480) [leftArm] 0 (frameOf rightOnly) = Inr 0 \<and>
   calculateMatchScore exampleConfig (Some 480) [legBalance] 0 (frameOf (dimmed 26)) = Inr 0 \<and>
   calculateMatchScore exampleConfig (Some 480) [leftArm\<lparr>evalJoints := Some []\<rparr>] 0
     (frameOf upright) = Inl TypeError \<and>
   calculateMatchScore exampleConfig (Some 480) [leftArm] 1 (frameOf upright) = Inr 0 \<and>
   \<not> isStartPoseAchieved exampleConfig (Some (frameOf rightOnly))"
proof -
  have t: "targetType ([leftArm] ! 0) = ''ARM''" "targetType ([legBalance] ! 0) = ''LEG_BALANCE''"
    "targetType ([leftArm\<lparr>evalJoints := Some []\<rparr>] ! 0) = ''ARM''"
    by (simp_all add: leftArm_def legBalance_def)
  have p: "present (frameOf rightOnly) [11, 13, 15, 23]" "lowVisibility (frameOf rightOnly) [11, 13, 15, 23]"
    "present (frameOf (dimmed 26)) [26, 28, 24, 23]" "lowVisibility (frameOf (dimmed 26)) [26, 28, 24, 23]"
    "notVisible (frameOf rightOnly) 11"
    by (simp_all add: present_def lowVisibility_def notVisible_def entry_frameOf rightOnly_def dimmed_def)
  show ?thesis
    using scoring_total_on_present_landmarks [of mediapipeIndices exampleConfig 0
        "[\<lparr>name = ''Dance'', targetType = ''DANCE'', evalJoints = None, message = [], score = 0\<rparr>]"
        "Some 480" "frameOf upright" LEFT]
      scoring_total_on_present_landmarks [of mediapipeIndices exampleConfig 0 "[leftArm]"
        "Some 480" "frameOf rightOnly" LEFT]
      scoring_total_on_present_landmarks [of mediapipeIndices exampleConfig 0 "[legBalance]"
        "Some 480" "frameOf (dimmed 26)" LEFT]
      scoring_total_on_present_landmarks [of mediapipeIndices exampleConfig 0
        "[leftArm\<lparr>evalJoints := Some []\<rparr>]" "Some 480" "frameOf upright" LEFT]
      scoring_total_on_present_landmarks [of mediapipeIndices exampleConfig 1 "[leftArm]"
        "Some 480" "frameOf upright" LEFT]
      t p sideOf_examples
    by (simp add: frame_simps requiredLandmarks_def)
qed

subsection \<open>The sub-scores and the score in binary64\<close>

lemmas fl64_value = roundEven_def Let_def powr_neg_numeral






subsection \<open>The final results\<close>

lemma foldl_score:
  "foldl (\<lambda>totalScore c. fl64 (totalScore + score c)) a cs =
     foldl (\<lambda>totalScore x. fl64 (totalScore + x)) a (map score cs)"
  by (induction cs arbitrary: a) simp_all

lemma averageScore_sum64:
  "cs \<noteq> [] \<Longrightarrow>
     averageScore cs = Some (fl64 (sum64 (map score cs) / real (length cs)))"
  by (simp add: averageScore_def foldl_score sum64_def)

lemma tiedChallenges_average:
  "averageScore tiedChallenges = Some (6333186975989761 / 2 ^ 46)"
proof -
  have a: "fl64 70 = 70"
    using fl64_binade [of 6 70] by (simp add: fl64_value)
  have b: "fl64 (70 + 6354297599243059 / 2 ^ 46) = 2820027422919885 / 2 ^ 44"
    using fl64_binade [of 7 "70 + 6354297599243059 / 2 ^ 46"] by (simp add: fl64_value)
  have c: "fl64 (2820027422919885 / 2 ^ 44 + 3514918771674317 / 2 ^ 45) =
             1144371702189261 / 2 ^ 42"
    using fl64_binade [of 8 "2820027422919885 / 2 ^ 44 + 3514918771674317 / 2 ^ 45"]
    by (simp add: fl64_value)
  have d: "fl64 (1144371702189261 / 2 ^ 42 + 7022800668930867 / 2 ^ 46) =
             6333186975989761 / 2 ^ 44"
    using fl64_binade [of 8 "1144371702189261 / 2 ^ 42 + 7022800668930867 / 2 ^ 46"]
    by (simp add: fl64_value)
  have e: "fl64 (6333186975989761 / 2 ^ 44 / 4) = 6333186975989761 / 2 ^ 46"
    using fl64_binade [of 6 "6333186975989761 / 2 ^ 44 / 4"] by (simp add: fl64_value)
  have "averageScore tiedChallenges =
          Some (fl64 (fl64 (fl64 (fl64 (fl64 70 + 6354297599243059 / 2 ^ 46)
                  + 3514918771674317 / 2 ^ 45) + 7022800668930867 / 2 ^ 46) / 4))"
    by (simp add: averageScore_def tiedChallenges_def score903_def score999_def score998_def)
  then show ?thesis unfolding a b c d e .
qed

text \<open>The example scores are the binary64 values of their decimals.\<close>

lemma example_scores:
  "fl64 (903 / 10) = score903" "fl64 (999 / 10) = score999" "fl64 (998 / 10) = score998"
  using fl64_binade [of 6 "903 / 10"] fl64_binade [of 6 "999 / 10"] fl64_binade [of 6 "998 / 10"]
  by (simp_all add: fl64_value score903_def score999_def score998_def)

text \<open>
  Claim C6, as stated, fails: the final scores 70.0, 90.3, 99.9 and 99.8 have the mean 90
  exactly, which is not above 90, and \<open>showFinalResults\<close> shows the success message: the
  sum it accumulates in binary64 gives an average just above 90.
\<close>

theorem mean_90_success_message:
  "mean (map score tiedChallenges) = 90 \<and>
   guideMessage (challengeState (showFinalResults (initialSession tiedChallenges))) =
     AllDonePerfect (Some 90)"
proof -
  have "mean (map score tiedChallenges) = 90"
    by (simp add: mean_def tiedChallenges_def score903_def score999_def score998_def)
  moreover have "toFixed1 (6333186975989761 / 2 ^ 46) = 90"
    by (simp add: toFixed1_def round_def)
  moreover have "challenges (challengeState (initialSession tiedChallenges)) = tiedChallenges"
    by (simp add: initialSession_def initialState_def)
  ultimately show ?thesis
    by (simp add: showFinalResults_def setChallengeState_def Let_def tiedChallenges_average)
qed

text \<open>
  Claim C6, amended. On up to 1000 challenges with final scores in \<open>[0, 100]\<close>,
  \<open>showFinalResults\<close> computes the average in binary64 (the scores added one by one, then
  divided by their number), which is within \<open>1 / 2 ^ 35\<close> of their arithmetic mean. It shows
  the success message exactly when this average is above 90, hence whenever the mean is
  above \<open>90 + 1 / 2 ^ 35\<close> and never when the mean is at most \<open>90 - 1 / 2 ^ 35\<close>; and it
  writes to the console one line per challenge, pairing its name with its score, and the
  average.
\<close>

theorem showFinalResults_report:
  assumes "challenges (challengeState s) = cs" and "cs \<noteq> []" and "length cs \<le> 1000"
    and "\<forall>c \<in> set cs. 0 \<le> score c \<and> score c \<le> 100"
  shows "\<exists>avg. averageScore cs = Some avg \<and>
           avg = fl64 (sum64 (map score cs) / real (length cs)) \<and>
           \<bar>avg - mean (map score cs)\<bar> \<le> 1 / 2 ^ 35 \<and>
           guideMessage (challengeState (showFinalResults s)) =
             (if avg > 90 then AllDonePerfect (Some (toFixed1 avg))
              else AllDoneRetry (Some (toFixed1 avg))) \<and>
           scoreColor (challengeState (showFinalResults s)) =
             (if avg > 90 then ''#4CAF50'' else ''#FFC107'') \<and>
           currentScore (challengeState (showFinalResults s)) = Average (Some (toFixed1 avg)) \<and>
           console (showFinalResults s) =
             console s @ [ResultsHeader,
                          ScoreList (map (\<lambda>c. (name c, toFixed1 (score c))) cs),
                          AverageLine (Some (toFixed1 avg))] \<and>
           (mean (map score cs) > 90 + 1 / 2 ^ 35 \<longrightarrow>
              guideMessage (challengeState (showFinalResults s)) =
                AllDonePerfect (Some (toFixed1 avg))) \<and>
           (mean (map score cs) \<le> 90 - 1 / 2 ^ 35 \<longrightarrow>
              guideMessage (challengeState (showFinalResults s)) =
                AllDoneRetry (Some (toFixed1 avg)))"
proof -
  define avg where "avg = fl64 (sum64 (map score cs) / real (length cs))"
  have a: "averageScore cs = Some avg"
    using assms(2) by (simp add: averageScore_sum64 avg_def)
  have "\<forall>x \<in> set (map score cs). 0 \<le> x \<and> x \<le> 100" using assms(4) by simp
  moreover have "map score cs \<noteq> []" "length (map score cs) \<le> 1000"
    using assms(2,3) by simp_all
  ultimately have e: "\<bar>avg - mean (map score cs)\<bar> \<le> 1 / 2 ^ 35"
    using mean64_error [of "map score cs"] by (simp add: avg_def)
  have g: "guideMessage (challengeState (showFinalResults s)) =
             (if avg > 90 then AllDonePerfect (Some (toFixed1 avg))
              else AllDoneRetry (Some (toFixed1 avg)))"
    and c: "scoreColor (challengeState (showFinalResults s)) =
             (if avg > 90 then ''#4CAF50'' else ''#FFC107'')"
    and d: "currentScore (challengeState (showFinalResults s)) = Average (Some (toFixed1 avg))"
    and l: "console (showFinalResults s) =
             console s @ [ResultsHeader,
                          ScoreList (map (\<lambda>c. (name c, toFixed1 (score c))) cs),
                          AverageLine (Some (toFixed1 avg))]"
    using assms(1) a by (simp_all add: showFinalResults_def setChallengeState_def Let_def)
  have hi: "90 < avg" if "mean (map score cs) > 90 + 1 / 2 ^ 35"
    using e that unfolding abs_le_iff by linarith
  have lo: "\<not> 90 < avg" if "mean (map score cs) \<le> 90 - 1 / 2 ^ 35"
    using e that unfolding abs_le_iff by linarith
  from a e g c d l hi lo show ?thesis
    unfolding avg_def [symmetric] by (intro exI [of _ avg]) simp
qed

text \<open>The scores 100, 80 and 60 have the average 80, and the retry message is chosen.\<close>

theorem showFinalResults_report_witness:
  "averageScore scoredChallenges = Some 80 \<and>
   guideMessage (challengeState (showFinalResults (initialSession scoredChallenges))) =
     AllDoneRetry (Some 80) \<and>
   console (showFinalResults (initialSession scoredChallenges)) =
     [ResultsHeader, ScoreList [(''Left arm'', 100), (''Right arm'', 80), (''Balance'', 60)],
      AverageLine (Some 80)]"
proof -
  have v: "fl64 180 = 180" "fl64 240 = 240" "fl64 80 = 80"
    using fl64_binade [of 7 180] fl64_binade [of 7 240] fl64_binade [of 6 80]
    by (simp_all add: fl64_value)
  have "averageScore scoredChallenges = Some (fl64 (fl64 (fl64 (fl64 100 + 80) + 60) / 3))"
    by (simp add: averageScore_def scoredChallenges_def leftArm_def rightArm_def legBalance_def)
  then have m: "averageScore scoredChallenges = Some 80"
    by (simp add: v)
  have n: "map (\<lambda>c. (name c, toFixed1 (score c))) scoredChallenges =
             [(''Left arm'', 100), (''Right arm'', 80), (''Balance'', 60)]"
    by (simp add: scoredChallenges_def leftArm_def rightArm_def legBalance_def toFixed1_def)
  have c: "challenges (challengeState (initialSession scoredChallenges)) = scoredChallenges"
    "console (initialSession scoredChallenges) = []" "scoredChallenges \<noteq> []"
    "length scoredChallenges \<le> 1000"
    "\<forall>c \<in> set scoredChallenges. 0 \<le> score c \<and> score c \<le> 100"
    by (simp_all add: initialSession_def initialState_def scoredChallenges_def)
  show ?thesis
    using showFinalResults_report [OF c(1) c(3) c(4) c(5)] m n c(2)
    by (auto simp add: toFixed1_def)
qed

subsection \<open>The registered callback\<close>

lemma firstRender_seen:
  "\<not> isChallengeStarted (seen (firstRender CHALLENGES))"
  "\<not> isInPreparationPhase (seen (firstRender CHALLENGES))"
  "\<not> isPoseFixed (seen (firstRender CHALLENGES))"
  "seenIndex (firstRender CHALLENGES) = 0"
  by (simp_all add: firstRender_def closureOf_def initialSession_def initialState_def)

text \<open>
  An \<open>onResults\<close> whose render has seen neither the timer started nor the pose fixed
  finalizes nothing and shows no score, whatever the state is.
\<close>

lemma onResults_unstarted:
  assumes "\<not> isChallengeStarted (seen c)" and "\<not> isPoseFixed (seen c)"
  shows "\<exists>s'. onResults cfg cv c s r = Inr s' \<and>
              challenges (challengeState s') = challenges (challengeState s) \<and>
              finalPoseLandmarks (challengeState s') = finalPoseLandmarks (challengeState s) \<and>
              currentScore (challengeState s') = currentScore (challengeState s) \<and>
              isPoseFixed (challengeState s') = isPoseFixed (challengeState s) \<and>
              currentChallengeIndex s' = currentChallengeIndex s \<and>
              timers s' = timers s"
  using assms
  by (auto simp add: onResults_def startPreparationPhase_def setChallengeState_def Let_def
      split: option.splits)

lemma registeredOnResults_keeps:
  "\<exists>s'. registeredOnResults cfg cv CHALLENGES s r = Inr s' \<and>
        challenges (challengeState s') = challenges (challengeState s) \<and>
        finalPoseLandmarks (challengeState s') = finalPoseLandmarks (challengeState s) \<and>
        currentScore (challengeState s') = currentScore (challengeState s) \<and>
        isPoseFixed (challengeState s') = isPoseFixed (challengeState s) \<and>
        currentChallengeIndex s' = currentChallengeIndex s \<and>
        timers s' = timers s"
  unfolding registeredOnResults_def
  by (rule onResults_unstarted) (simp_all add: firstRender_seen)

lemma feedFrames_keeps:
  "\<exists>s'. feedFrames cfg cv CHALLENGES s frames = Inr s' \<and>
        challenges (challengeState s') = challenges (challengeState s) \<and>
        finalPoseLandmarks (challengeState s') = finalPoseLandmarks (challengeState s) \<and>
        currentScore (challengeState s') = currentScore (challengeState s) \<and>
        isPoseFixed (challengeState s') = isPoseFixed (challengeState s)"
proof (induction frames arbitrary: s)
  case Nil
  then show ?case by simp
next
  case (Cons r frames)
  from registeredOnResults_keeps [of cfg cv CHALLENGES s r] obtain s1 where
    s1: "registeredOnResults cfg cv CHALLENGES s r = Inr s1"
      "challenges (challengeState s1) = challenges (challengeState s)"
      "finalPoseLandmarks (challengeState s1) = finalPoseLandmarks (challengeState s)"
      "currentScore (challengeState s1) = currentScore (challengeState s)"
      "isPoseFixed (challengeState s1) = isPoseFixed (challengeState s)"
    by blast
  from Cons.IH [of s1] s1 show ?case by simp
qed

text \<open>Once a render has seen the pose fixed, the camera it made sends nothing to the detector.\<close>

lemma onFrame_fixed:
  "isPoseFixed (seen c) \<Longrightarrow> onFrame cfg cv CHALLENGES c s detected = Inr s"
  by (simp add: onFrame_def)

subsection \<open>The timer\<close>

lemma timerTick_at:
  assumes "t0 \<in> set (timers s)"
  shows "timerTick t0 (t0 + 1000 * k) s =
           (if k < 3 then
              setChallengeState (\<lambda>prev. prev\<lparr>timerDisplay := Remaining (3 - k),
                                               guideMessage := GetReady (3 - k)\<rparr>) s
            else if k < 8 then
              setChallengeState (\<lambda>prev. prev\<lparr>timerDisplay := GO,
                                               guideMessage := Measuring (k - 2) 5\<rparr>) s
            else
              setChallengeState (\<lambda>prev. prev\<lparr>isPoseFixed := True, timerDisplay := NoTimer,
                                               guideMessage := PoseFixedMessage\<rparr>)
                (s\<lparr>timers := remove1 t0 (timers s)\<rparr>))"
  using assms
  by (simp add: timerTick_def Let_def COUNTDOWN_SECONDS_def HOLD_SECONDS_def)

lemma runTicks_running:
  assumes "t0 \<in> set (timers s)" and "n < 8"
  shows "timers (runTicks t0 n s) = timers s \<and>
         currentChallengeIndex (runTicks t0 n s) = currentChallengeIndex s \<and>
         isPoseFixed (challengeState (runTicks t0 n s)) = isPoseFixed (challengeState s) \<and>
         isChallengeStarted (challengeState (runTicks t0 n s)) = isChallengeStarted (challengeState s) \<and>
         isInPreparationPhase (challengeState (runTicks t0 n s)) = isInPreparationPhase (challengeState s) \<and>
         finalPoseLandmarks (challengeState (runTicks t0 n s)) = finalPoseLandmarks (challengeState s) \<and>
         currentScore (challengeState (runTicks t0 n s)) = currentScore (challengeState s) \<and>
         challenges (challengeState (runTicks t0 n s)) = challenges (challengeState s) \<and>
         timerDisplay (challengeState (runTicks t0 n s)) =
           (if n = 0 then timerDisplay (challengeState s)
            else if n < 3 then Remaining (3 - int n) else GO)"
  using assms(2)
proof (induction n)
  case 0
  then show ?case by simp
next
  case (Suc n)
  then have ih: "t0 \<in> set (timers (runTicks t0 n s))" and n: "n < 7"
    using assms(1) by simp_all
  have "runTicks t0 (Suc n) s =
          (if int n + 1 < 3 then
             setChallengeState (\<lambda>prev. prev\<lparr>timerDisplay := Remaining (3 - (int n + 1)),
                                              guideMessage := GetReady (3 - (int n + 1))\<rparr>)
               (runTicks t0 n s)
           else
             setChallengeState (\<lambda>prev. prev\<lparr>timerDisplay := GO,
                                              guideMessage := Measuring (int n + 1 - 2) 5\<rparr>)
               (runTicks t0 n s))"
    unfolding runTicks.simps timerTick_at [OF ih] using n by simp
  then show ?case
    using Suc.IH n by (simp add: setChallengeState_def)
qed

lemma runTicks_fixed:
  assumes "t0 \<in> set (timers s)"
  shows "timers (runTicks t0 8 s) = remove1 t0 (timers s) \<and>
         isPoseFixed (challengeState (runTicks t0 8 s)) \<and>
         currentChallengeIndex (runTicks t0 8 s) = currentChallengeIndex s \<and>
         isChallengeStarted (challengeState (runTicks t0 8 s)) = isChallengeStarted (challengeState s) \<and>
         finalPoseLandmarks (challengeState (runTicks t0 8 s)) = finalPoseLandmarks (challengeState s) \<and>
         currentScore (challengeState (runTicks t0 8 s)) = currentScore (challengeState s) \<and>
         challenges (challengeState (runTicks t0 8 s)) = challenges (challengeState s)"
proof -
  have e: "(8::nat) = Suc 7" by simp
  have r: "t0 \<in> set (timers (runTicks t0 7 s))"
    using runTicks_running [OF assms, of 7] assms by simp
  have "runTicks t0 (Suc 7) s =
          setChallengeState (\<lambda>prev. prev\<lparr>isPoseFixed := True, timerDisplay := NoTimer,
                                           guideMessage := PoseFixedMessage\<rparr>)
            ((runTicks t0 7 s)\<lparr>timers := remove1 t0 (timers (runTicks t0 7 s))\<rparr>)"
    unfolding runTicks.simps timerTick_at [OF r] by simp
  then show ?thesis
    unfolding e using runTicks_running [OF assms, of 7]
    by (simp add: setChallengeState_def)
qed

lemma startChallengeTimer_started:
  assumes "\<not> isChallengeStarted (seen c)"
  shows "timers (startChallengeTimer c t0 s) = timers s @ [t0] \<and>
         isChallengeStarted (challengeState (startChallengeTimer c t0 s)) \<and>
         currentChallengeIndex (startChallengeTimer c t0 s) = currentChallengeIndex s \<and>
         isPoseFixed (challengeState (startChallengeTimer c t0 s)) = isPoseFixed (challengeState s) \<and>
         finalPoseLandmarks (challengeState (startChallengeTimer c t0 s)) = finalPoseLandmarks (challengeState s) \<and>
         currentScore (challengeState (startChallengeTimer c t0 s)) = currentScore (challengeState s) \<and>
         challenges (challengeState (startChallengeTimer c t0 s)) = challenges (challengeState s) \<and>
         timerDisplay (challengeState (startChallengeTimer c t0 s)) = timerDisplay (challengeState s)"
  using assms by (simp add: startChallengeTimer_def setChallengeState_def)

text \<open>
  The schedule of one timer. It is started at time \<open>t0\<close>, by a callback that has not seen a
  timer started, in a state whose pose is not fixed, and its interval runs on time. Then
  \<open>t\<close> milliseconds later the session is in the countdown for \<open>0 \<le> t < 3000\<close> and in the
  hold for \<open>3000 \<le> t < 8000\<close>; until 8000 the pose is not fixed and the interval is live;
  at \<open>t = 8000\<close> the pose is fixed and the interval is cleared.
\<close>

lemma timer_schedule:
  assumes idle: "\<not> isChallengeStarted (seen c)" "\<not> isPoseFixed (challengeState s)"
      "timerDisplay (challengeState s) \<noteq> GO"
    and s0: "s0 = startChallengeTimer c t0 s"
  shows "(0 \<le> t \<and> t < 3000 \<longrightarrow> phaseOf (sessionAt t0 t s0) = Countdown) \<and>
         (3000 \<le> t \<and> t < 8000 \<longrightarrow> phaseOf (sessionAt t0 t s0) = Hold) \<and>
         (0 \<le> t \<and> t < 8000 \<longrightarrow>
            \<not> isPoseFixed (challengeState (sessionAt t0 t s0)) \<and>
            timers (sessionAt t0 t s0) = timers s @ [t0] \<and>
            currentScore (challengeState (sessionAt t0 t s0)) = currentScore (challengeState s)) \<and>
         phaseOf (sessionAt t0 8000 s0) = Fixed \<and>
         isPoseFixed (challengeState (sessionAt t0 8000 s0)) \<and>
         timers (sessionAt t0 8000 s0) = remove1 t0 (timers s @ [t0])"
proof -
  note st = startChallengeTimer_started [OF idle(1), of t0 s, folded s0]
  then have tid: "t0 \<in> set (timers s0)" by simp
  have run: "n < 8 \<Longrightarrow>
      timers (runTicks t0 n s0) = timers s @ [t0] \<and>
      \<not> isPoseFixed (challengeState (runTicks t0 n s0)) \<and>
      isChallengeStarted (challengeState (runTicks t0 n s0)) \<and>
      currentScore (challengeState (runTicks t0 n s0)) = currentScore (challengeState s) \<and>
      timerDisplay (challengeState (runTicks t0 n s0)) =
        (if n = 0 then timerDisplay (challengeState s)
         else if n < 3 then Remaining (3 - int n) else GO)" for n
    using runTicks_running [OF tid, of n] st idle by simp
  have countdown: "phaseOf (sessionAt t0 t s0) = Countdown" if "0 \<le> t" "t < 3000"
  proof -
    define n where "n = nat (t div 1000)"
    have n: "n < 3" using that by (simp add: n_def)
    have "sessionAt t0 t s0 = runTicks t0 n s0" by (simp add: sessionAt_def n_def)
    then show ?thesis
      using run [of n] n idle(3) by (simp add: phaseOf_def Let_def)
  qed
  have before: "\<not> isPoseFixed (challengeState (sessionAt t0 t s0)) \<and>
                timers (sessionAt t0 t s0) = timers s @ [t0] \<and>
                currentScore (challengeState (sessionAt t0 t s0)) = currentScore (challengeState s)"
    if "0 \<le> t" "t < 8000"
  proof -
    define n where "n = nat (t div 1000)"
    have n: "n < 8" using that by (simp add: n_def)
    have "sessionAt t0 t s0 = runTicks t0 n s0" by (simp add: sessionAt_def n_def)
    then show ?thesis
      using run [of n] n by simp
  qed
  have hold: "phaseOf (sessionAt t0 t s0) = Hold" if "3000 \<le> t" "t < 8000"
  proof -
    define n where "n = nat (t div 1000)"
    have lo: "3 \<le> n" and hi: "n < 8" using that by (simp_all add: n_def)
    have at: "sessionAt t0 t s0 = runTicks t0 n s0" by (simp add: sessionAt_def n_def)
    note r = run [OF hi, folded at]
    show ?thesis
      using r lo by (simp add: phaseOf_def Let_def)
  qed
  have fixed: "phaseOf (sessionAt t0 8000 s0) = Fixed \<and>
         isPoseFixed (challengeState (sessionAt t0 8000 s0)) \<and>
         timers (sessionAt t0 8000 s0) = remove1 t0 (timers s @ [t0])"
    using runTicks_fixed [OF tid] st by (simp add: phaseOf_def sessionAt_def Let_def)
  from countdown hold before fixed show ?thesis by blast
qed

subsection \<open>A session on the example data\<close>

lemma fl64_200 [simp]: "fl64 200 = 200"
  using fl64_binade [of 7 200] by (simp add: fl64_value)

lemma upright_leftArm_score:
  "calculateMatchScore exampleConfig (Some 480) [leftArm] 0 (frameOf upright) = Inr 100"
proof -
  have "targetType ([leftArm] ! 0) = ''ARM''"
    by (simp add: leftArm_def)
  moreover have "matchScore64 [100, 100] = 100"
    by (simp add: matchScore64_def sum64_def Let_def toFixed1_numerals)
  ultimately show ?thesis
    using calculateMatchScore_arm [of 0 "[leftArm]" LEFT "frameOf upright" exampleConfig False
            "Some 480"] anyBelow_upright(1)
    by (simp add: sideOf_examples frame_simps
          upright_scores [unfolded exampleConfig_def mediapipeIndices_def])
qed

lemma initialSession_idle:
  "\<not> isChallengeStarted (challengeState (initialSession cs))"
  "\<not> isPoseFixed (challengeState (initialSession cs))"
  "timerDisplay (challengeState (initialSession cs)) \<noteq> GO"
  "finalPoseLandmarks (challengeState (initialSession cs)) = None"
  "currentScore (challengeState (initialSession cs)) = NoScore"
  "challenges (challengeState (initialSession cs)) = cs"
  "currentChallengeIndex (initialSession cs) = 0"
  "timers (initialSession cs) = []"
  by (simp_all add: initialSession_def initialState_def)

lemma startedSession_facts:
  "\<not> isPoseFixed (challengeState startedSession)"
  "isChallengeStarted (challengeState startedSession)"
  "finalPoseLandmarks (challengeState startedSession) = None"
  "currentScore (challengeState startedSession) = NoScore"
  "challenges (challengeState startedSession) = [leftArm]"
  "currentChallengeIndex startedSession = 0"
  "timers startedSession = [0]"
  using startChallengeTimer_started [OF firstRender_seen(1), of "[leftArm]" 0
      "initialSession [leftArm]"]
  by (simp_all add: startedSession_def initialSession_idle)

lemma fixedSession_facts:
  "isPoseFixed (challengeState fixedSession)"
  "isChallengeStarted (challengeState fixedSession)"
  "finalPoseLandmarks (challengeState fixedSession) = None"
  "currentScore (challengeState fixedSession) = NoScore"
  "challenges (challengeState fixedSession) = [leftArm]"
  "currentChallengeIndex fixedSession = 0"
  "timers fixedSession = []"
proof -
  have "0 \<in> set (timers startedSession)" by (simp add: startedSession_facts)
  from runTicks_fixed [OF this]
  show "isPoseFixed (challengeState fixedSession)"
    "isChallengeStarted (challengeState fixedSession)"
    "finalPoseLandmarks (challengeState fixedSession) = None"
    "currentScore (challengeState fixedSession) = NoScore"
    "challenges (challengeState fixedSession) = [leftArm]"
    "currentChallengeIndex fixedSession = 0"
    "timers fixedSession = []"
    by (simp_all add: fixedSession_def sessionAt_def startedSession_facts)
qed

text \<open>
  Claim C2. The timer of the first challenge has run out and the pose is fixed. The
  detector then delivers ten times the upright frame, which scores 100. Its callback is
  the \<open>onResults\<close> of the first render, which has not seen the pose fixed: after the ten
  frames no landmarks are frozen and the score of the challenge is still the 0 it was
  configured with. The camera made by the render that has seen the pose fixed sends the
  detector nothing. Handled by the \<open>onResults\<close> of that render, the first frame would be
  frozen and would set the score 100.
\<close>

theorem fixed_frames_never_finalized:
  "isPoseFixed (challengeState fixedSession) \<and>
   calculateMatchScore exampleConfig (Some 480) [leftArm] 0 (frameOf upright) = Inr 100 \<and>
   (\<exists>s'. feedFrames exampleConfig (Some 480) [leftArm] fixedSession
            (replicate 10 (Some (frameOf upright))) = Inr s' \<and>
         finalPoseLandmarks (challengeState s') = None \<and>
         map score (challenges (challengeState s')) = [0]) \<and>
   onFrame exampleConfig (Some 480) [leftArm] (closureOf fixedSession) fixedSession
     (Some (frameOf upright)) = Inr fixedSession \<and>
   (\<exists>s'. onResults exampleConfig (Some 480) (closureOf fixedSession) fixedSession
            (Some (frameOf upright)) = Inr s' \<and>
         finalPoseLandmarks (challengeState s') = Some (frameOf upright) \<and>
         map score (challenges (challengeState s')) = [100])"
proof -
  from feedFrames_keeps [of exampleConfig "Some 480" "[leftArm]" fixedSession
      "replicate 10 (Some (frameOf upright))"]
  have 1: "\<exists>s'. feedFrames exampleConfig (Some 480) [leftArm] fixedSession
                  (replicate 10 (Some (frameOf upright))) = Inr s' \<and>
               finalPoseLandmarks (challengeState s') = None \<and>
               map score (challenges (challengeState s')) = [0]"
    by (auto simp add: fixedSession_facts leftArm_def)
  have 2: "onFrame exampleConfig (Some 480) [leftArm] (closureOf fixedSession) fixedSession
             (Some (frameOf upright)) = Inr fixedSession"
    by (rule onFrame_fixed) (simp add: closureOf_def fixedSession_facts)
  have c: "isPoseFixed (seen (closureOf fixedSession))"
    "finalPoseLandmarks (seen (closureOf fixedSession)) = None"
    "seenIndex (closureOf fixedSession) = 0"
    by (simp_all add: closureOf_def fixedSession_facts)
  have started: "isChallengeStarted (seen (closureOf fixedSession))"
    by (simp add: closureOf_def fixedSession_facts)
  have 3: "\<exists>s'. onResults exampleConfig (Some 480) (closureOf fixedSession) fixedSession
                  (Some (frameOf upright)) = Inr s' \<and>
               finalPoseLandmarks (challengeState s') = Some (frameOf upright) \<and>
               map score (challenges (challengeState s')) = [100]"
    using c started upright_leftArm_score
    by (simp add: onResults_def finalizePose_def updateLiveScore_def setChallengeState_def
        Let_def fixedSession_facts)
  from 1 2 3 show ?thesis
    by (simp add: fixedSession_facts upright_leftArm_score)
qed

text \<open>
  Claim C5. The timer of the first challenge is started at time 0. The session is in the
  countdown until 3000 ms, in the hold from 3000 ms until 8000 ms, and at 8000 ms the pose
  is fixed and the interval cleared. At 5000 ms, in the hold, the detector delivers the
  upright frame, which scores 100. Its callback is the \<open>onResults\<close> of the first render,
  which has not seen the timer started: the frame is not scored, and the displayed score
  stays the \<open>'--'\<close> it was.
\<close>

theorem hold_frame_not_scored:
  "phaseOf (sessionAt 0 0 startedSession) = Countdown \<and>
   phaseOf (sessionAt 0 2999 startedSession) = Countdown \<and>
   phaseOf (sessionAt 0 3000 startedSession) = Hold \<and>
   phaseOf (sessionAt 0 5000 startedSession) = Hold \<and>
   phaseOf (sessionAt 0 7999 startedSession) = Hold \<and>
   phaseOf (sessionAt 0 8000 startedSession) = Fixed \<and>
   timers (sessionAt 0 8000 startedSession) = [] \<and>
   calculateMatchScore exampleConfig (Some 480) [leftArm] 0 (frameOf upright) = Inr 100 \<and>
   currentScore (challengeState (sessionAt 0 5000 startedSession)) = NoScore \<and>
   (\<exists>s'. registeredOnResults exampleConfig (Some 480) [leftArm]
            (sessionAt 0 5000 startedSession) (Some (frameOf upright)) = Inr s' \<and>
         currentScore (challengeState s') = NoScore)"
proof -
  note sched = timer_schedule [where c = "firstRender [leftArm]" and s = "initialSession [leftArm]"
      and ?t0.0 = 0 and ?s0.0 = startedSession,
      OF firstRender_seen(1) initialSession_idle(2,3) startedSession_def]
  have ph: "phaseOf (sessionAt 0 0 startedSession) = Countdown"
    "phaseOf (sessionAt 0 2999 startedSession) = Countdown"
    "phaseOf (sessionAt 0 3000 startedSession) = Hold"
    "phaseOf (sessionAt 0 5000 startedSession) = Hold"
    "phaseOf (sessionAt 0 7999 startedSession) = Hold"
    "phaseOf (sessionAt 0 8000 startedSession) = Fixed"
    "timers (sessionAt 0 8000 startedSession) = []"
    "currentScore (challengeState (sessionAt 0 5000 startedSession)) = NoScore"
    using sched [of 0] sched [of 2999] sched [of 3000] sched [of 5000] sched [of 7999]
    by (simp_all add: initialSession_idle)
  from registeredOnResults_keeps [of exampleConfig "Some 480" "[leftArm]"
      "sessionAt 0 5000 startedSession" "Some (frameOf upright)"] ph(8)
  have "\<exists>s'. registeredOnResults exampleConfig (Some 480) [leftArm]
            (sessionAt 0 5000 startedSession) (Some (frameOf upright)) = Inr s' \<and>
         currentScore (challengeState s') = NoScore"
    by auto
  with ph upright_leftArm_score show ?thesis by simp
qed

end
